theory Spec2Isabelle
  imports Complex_Main "HOL-Library.Multiset" "HOL-Library.List_Lexorder" "HOL-Library.Char_ord"
begin

section \<open>JavaScript values used by the jury utilities\<close>

text \<open>
  The jury utilities (\<^verbatim>\<open>lib/jury-utils\<close>) are pure TypeScript functions over
  plain records. None of them contains a \<^verbatim>\<open>throw\<close>, and the built-in operations they
  call (\<^verbatim>\<open>new Date(string)\<close>, \<^verbatim>\<open>getTime\<close>, \<^verbatim>\<open>Math.abs\<close>, \<^verbatim>\<open>Math.ceil\<close>,
  \<^verbatim>\<open>filter\<close>, \<^verbatim>\<open>map\<close>, \<^verbatim>\<open>sort\<close>, \<^verbatim>\<open>slice\<close>, \<^verbatim>\<open>reduce\<close>) do not raise on
  the values they are given here, so every function is modelled as a total function that
  returns a value. A failed date parse is not an exception in JavaScript: it is the
  value \<^verbatim>\<open>NaN\<close>, which is modelled explicitly.
\<close>

datatype 'a jsnum = NaN | Num 'a

text \<open>Arithmetic propagates \<^verbatim>\<open>NaN\<close>; every comparison with \<^verbatim>\<open>NaN\<close> is false.\<close>

fun js_sub :: "'a::minus jsnum \<Rightarrow> 'a jsnum \<Rightarrow> 'a jsnum" where
  "js_sub (Num a) (Num b) = Num (a - b)"
| "js_sub _ _ = NaN"

fun js_add :: "'a::plus jsnum \<Rightarrow> 'a jsnum \<Rightarrow> 'a jsnum" where
  "js_add (Num a) (Num b) = Num (a + b)"
| "js_add _ _ = NaN"

fun js_neg :: "'a::uminus jsnum \<Rightarrow> 'a jsnum" where
  "js_neg (Num a) = Num (- a)"
| "js_neg NaN = NaN"

fun js_abs :: "'a::abs jsnum \<Rightarrow> 'a jsnum" where
  "js_abs (Num a) = Num \<bar>a\<bar>"
| "js_abs NaN = NaN"

fun js_lt :: "'a::ord jsnum \<Rightarrow> 'a jsnum \<Rightarrow> bool" where
  "js_lt (Num a) (Num b) = (a < b)"
| "js_lt _ _ = False"

fun js_gt :: "'a::ord jsnum \<Rightarrow> 'a jsnum \<Rightarrow> bool" where
  "js_gt (Num a) (Num b) = (b < a)"
| "js_gt _ _ = False"

fun js_strict_eq :: "'a jsnum \<Rightarrow> 'a jsnum \<Rightarrow> bool" where
  "js_strict_eq (Num a) (Num b) = (a = b)"
| "js_strict_eq _ _ = False"

fun js_real :: "int jsnum \<Rightarrow> real jsnum" where
  "js_real (Num a) = Num (real_of_int a)"
| "js_real NaN = NaN"

text \<open>
  \<^verbatim>\<open>Math.ceil(x / d)\<close> for an integral \<open>x\<close> and a positive integral \<open>d\<close>: the
  least integer not below the quotient. (For the differences of two time values read by
  \<open>newDate\<close> and \<open>d\<close> the milliseconds of a day, the rounding of the floating-point
  quotient is far smaller than its distance to the next whole number, so the engine's
  result is this integer.)
\<close>

fun js_ceil_div :: "int jsnum \<Rightarrow> int \<Rightarrow> int jsnum" where
  "js_ceil_div (Num x) d = Num (- ((- x) div d))"
| "js_ceil_div NaN d = NaN"

text \<open>A string in a condition is true unless it is \<^verbatim>\<open>null\<close> or empty.\<close>

fun truthy :: "string option \<Rightarrow> bool" where
  "truthy None = False"
| "truthy (Some s) = (s \<noteq> [])"

subsection \<open>Numbers in template literals\<close>

text \<open>
  A template literal prints a whole number in decimal notation (for magnitudes below
  \<open>10\<^sup>2\<^sup>1\<close>, which covers every count and day gap here) and prints \<^verbatim>\<open>NaN\<close>
  as "NaN".
\<close>

definition digit_char :: "nat \<Rightarrow> char" where
  "digit_char d = ''0123456789'' ! d"

fun show_nat :: "nat \<Rightarrow> string" where
  "show_nat n = (if n < 10 then [digit_char n] else show_nat (n div 10) @ [digit_char (n mod 10)])"

declare show_nat.simps [simp del]

definition show_int :: "int \<Rightarrow> string" where
  "show_int i = (if i < 0 then CHR ''-'' # show_nat (nat (- i)) else show_nat (nat i))"

fun show_num :: "int jsnum \<Rightarrow> string" where
  "show_num NaN = ''NaN''"
| "show_num (Num i) = show_int i"

subsection \<open>Dates\<close>

text \<open>
  A \<^verbatim>\<open>Date\<close> object is its time value: milliseconds since 1970-01-01T00:00:00Z, or
  \<^verbatim>\<open>NaN\<close> for an invalid date.

  \<^verbatim>\<open>new Date(string)\<close> is modelled for the strings whose time value the string alone
  determines, in the ECMAScript date-time string format with a four-digit year:
  \<^item> the date-only forms \<^verbatim>\<open>YYYY\<close>, \<^verbatim>\<open>YYYY-MM\<close> and \<^verbatim>\<open>YYYY-MM-DD\<close>, read as
    midnight UTC (every date of the repository's data has the third form);
  \<^item> a date-only form followed by \<^verbatim>\<open>T\<close>, a time \<^verbatim>\<open>HH:mm\<close>, \<^verbatim>\<open>HH:mm:ss\<close> or
    \<^verbatim>\<open>HH:mm:ss.sss\<close>, and an offset \<^verbatim>\<open>Z\<close>, \<^verbatim>\<open>+HH:mm\<close> or \<^verbatim>\<open>-HH:mm\<close>.
  The month is 01 to 12. The day is 01 to 31 for every month, and a day past the end of
  the month runs on into the next month, as in V8 (the engine of Node.js), so that
  2023-02-30 is 2 March 2023. The hour 24 is allowed for 24:00:00.000 only.

  Every other string is an invalid date in the model. That leaves out what depends on
  the host or the engine and not on the string: a date-time form without offset is read
  in the host's time zone, and a string outside the format is handed to the engine's
  own fallback parser. No property below uses more of such a string than that its reading
  is either \<^verbatim>\<open>NaN\<close> or a time value.
\<close>

type_synonym jsdate = "int jsnum"

definition digit_val :: "char \<Rightarrow> int option" where
  "digit_val c = (let n = (of_char c :: nat) in if 48 \<le> n \<and> n \<le> 57 then Some (int n - 48) else None)"

fun digits_val :: "int \<Rightarrow> string \<Rightarrow> int option" where
  "digits_val acc [] = Some acc"
| "digits_val acc (c # cs) =
     (case digit_val c of None \<Rightarrow> None | Some d \<Rightarrow> digits_val (10 * acc + d) cs)"

text \<open>A field of exactly \<open>n\<close> digits at the start of a string: its value and the rest.\<close>

definition digitsField :: "nat \<Rightarrow> string \<Rightarrow> (int \<times> string) option" where
  "digitsField n s =
     (if length s < n then None
      else (case digits_val 0 (take n s) of None \<Rightarrow> None | Some v \<Rightarrow> Some (v, drop n s)))"

definition skipChar :: "char \<Rightarrow> string \<Rightarrow> string option" where
  "skipChar c s = (case s of [] \<Rightarrow> None | x # r \<Rightarrow> if x = c then Some r else None)"

text \<open>Day number of a date of the proleptic Gregorian calendar, counted from 1970-01-01.\<close>

definition daysFromCivil :: "int \<Rightarrow> int \<Rightarrow> int \<Rightarrow> int" where
  "daysFromCivil y m d =
     (let y' = (if m \<le> 2 then y - 1 else y);
          era = y' div 400;
          yoe = y' - era * 400;
          doy = (153 * (if m > 2 then m - 3 else m + 9) + 2) div 5 + d - 1;
          doe = yoe * 365 + yoe div 4 - yoe div 100 + doy
      in era * 146097 + doe - 719468)"

text \<open>The year of a day number (the inverse direction of \<open>daysFromCivil\<close>).\<close>

definition yearFromDays :: "int \<Rightarrow> int" where
  "yearFromDays z0 =
     (let z = z0 + 719468;
          era = z div 146097;
          doe = z - era * 146097;
          yoe = (doe - doe div 1460 + doe div 36524 - doe div 146096) div 365;
          doy = doe - (365 * yoe + yoe div 4 - yoe div 100);
          mp = (5 * doy + 2) div 153
      in yoe + era * 400 + (if mp < 10 then 0 else 1))"

definition msPerDay :: int where
  "msPerDay = 1000 * 60 * 60 * 24"

text \<open>The date part: year, month and day (month and day are 1 when left out), and the rest.\<close>

definition parseDatePart :: "string \<Rightarrow> ((int \<times> int \<times> int) \<times> string) option" where
  "parseDatePart s =
     (case digitsField 4 s of
        None \<Rightarrow> None
      | Some (y, r1) \<Rightarrow>
          (case skipChar CHR ''-'' r1 of
             None \<Rightarrow> Some ((y, 1, 1), r1)
           | Some r2 \<Rightarrow>
               (case digitsField 2 r2 of
                  None \<Rightarrow> None
                | Some (m, r3) \<Rightarrow>
                    if m < 1 \<or> 12 < m then None
                    else
                      (case skipChar CHR ''-'' r3 of
                         None \<Rightarrow> Some ((y, m, 1), r3)
                       | Some r4 \<Rightarrow>
                           (case digitsField 2 r4 of
                              None \<Rightarrow> None
                            | Some (d, r5) \<Rightarrow>
                                if d < 1 \<or> 31 < d then None else Some ((y, m, d), r5))))))"

text \<open>The seconds and milliseconds after \<^verbatim>\<open>HH:mm\<close>, both optional, and the rest.\<close>

definition parseSeconds :: "string \<Rightarrow> (int \<times> int \<times> string) option" where
  "parseSeconds s =
     (case skipChar CHR '':'' s of
        None \<Rightarrow> Some (0, 0, s)
      | Some r1 \<Rightarrow>
          (case digitsField 2 r1 of
             None \<Rightarrow> None
           | Some (sec, r2) \<Rightarrow>
               (case skipChar CHR ''.'' r2 of
                  None \<Rightarrow> Some (sec, 0, r2)
                | Some r3 \<Rightarrow>
                    (case digitsField 3 r3 of
                       None \<Rightarrow> None
                     | Some (ms, r4) \<Rightarrow> Some (sec, ms, r4)))))"

text \<open>The time part after \<^verbatim>\<open>T\<close>: milliseconds since midnight, and the rest.\<close>

definition parseTimePart :: "string \<Rightarrow> (int \<times> string) option" where
  "parseTimePart s =
     (case digitsField 2 s of
        None \<Rightarrow> None
      | Some (h, r1) \<Rightarrow>
          (case skipChar CHR '':'' r1 of
             None \<Rightarrow> None
           | Some r2 \<Rightarrow>
               (case digitsField 2 r2 of
                  None \<Rightarrow> None
                | Some (mi, r3) \<Rightarrow>
                    (case parseSeconds r3 of
                       None \<Rightarrow> None
                     | Some (sec, ms, r4) \<Rightarrow>
                         if 24 < h \<or> 59 < mi \<or> 59 < sec then None
                         else if h = 24 \<and> (mi \<noteq> 0 \<or> sec \<noteq> 0 \<or> ms \<noteq> 0) then None
                         else Some (((h * 60 + mi) * 60 + sec) * 1000 + ms, r4)))))"

text \<open>The offset, which ends the string: minutes east of UTC.\<close>

definition parseOffset :: "string \<Rightarrow> int option" where
  "parseOffset s =
     (case s of
        [] \<Rightarrow> None
      | c # r \<Rightarrow>
          if c = CHR ''Z'' then (if r = [] then Some 0 else None)
          else if c = CHR ''+'' \<or> c = CHR ''-'' then
            (case digitsField 2 r of
               None \<Rightarrow> None
             | Some (h, r1) \<Rightarrow>
                 (case skipChar CHR '':'' r1 of
                    None \<Rightarrow> None
                  | Some r2 \<Rightarrow>
                      (case digitsField 2 r2 of
                         None \<Rightarrow> None
                       | Some (mi, r3) \<Rightarrow>
                           if r3 \<noteq> [] \<or> 23 < h \<or> 59 < mi then None
                           else Some ((if c = CHR ''+'' then 1 else - 1) * (h * 60 + mi)))))
          else None)"

definition newDate :: "string \<Rightarrow> jsdate" where
  "newDate s =
     (case parseDatePart s of
        None \<Rightarrow> NaN
      | Some ((y, m, d), r) \<Rightarrow>
          if r = [] then Num (daysFromCivil y m d * msPerDay)
          else
            (case skipChar CHR ''T'' r of
               None \<Rightarrow> NaN
             | Some r1 \<Rightarrow>
                 (case parseTimePart r1 of
                    None \<Rightarrow> NaN
                  | Some (ms, r2) \<Rightarrow>
                      (case parseOffset r2 of
                         None \<Rightarrow> NaN
                       | Some off \<Rightarrow>
                           Num (daysFromCivil y m d * msPerDay + ms - off * 60 * 1000)))))"

definition getTime :: "jsdate \<Rightarrow> int jsnum" where
  "getTime d = d"

text \<open>
  \<^verbatim>\<open>getFullYear\<close> reads the year in the host's time zone. The host enters as its
  local time zone adjustment: the milliseconds to add to a UTC time value to get the
  local time (constantly 0 on a host in UTC).
\<close>

fun getFullYear :: "(int \<Rightarrow> int) \<Rightarrow> jsdate \<Rightarrow> int jsnum" where
  "getFullYear localTZA (Num t) = Num (yearFromDays ((t + localTZA t) div msPerDay))"
| "getFullYear localTZA NaN = NaN"

section \<open>Date arithmetic\<close>

text \<open>
  \<^verbatim>\<open>
  export function daysBetween(date1: string, date2: string): number {
    const d1 = new Date(date1);
    const d2 = new Date(date2);
    const diffTime = Math.abs(d2.getTime() - d1.getTime());
    return Math.ceil(diffTime / (1000 * 60 * 60 * 24));
  }
  \<close>
\<close>

definition daysBetween :: "string \<Rightarrow> string \<Rightarrow> int jsnum" where
  "daysBetween date1 date2 =
     (let d1 = newDate date1;
          d2 = newDate date2;
          diffTime = js_abs (js_sub (getTime d2) (getTime d1))
      in js_ceil_div diffTime (1000 * 60 * 60 * 24))"

section \<open>Data model\<close>

text \<open>
  The records of \<^verbatim>\<open>types/types.ts\<close>. The two string enumerations are closed
  datatypes: \<open>Profesor\<close> and \<open>Docent\<close> are the two titles (professor and associate
  professor). A field of type \<^verbatim>\<open>T | null\<close> or an optional field is an option.
  Counts and thresholds of the configuration are whole numbers; ratings and distances
  are real numbers. The fields \<^verbatim>\<open>id\<close> and \<^verbatim>\<open>count\<close> carry a prime, because
  the plain names are constants of the library.
\<close>

datatype ProfessorTitle = Profesor | Docent

datatype ProcedureType = DoktorProc | DocentProc | DNProc | ProfesorProc

record Professor =
  id' :: int
  title :: ProfessorTitle
  names :: string
  science :: real
  university :: string
  km :: real
  count' :: int
  preLastDate :: "string option"
  lastDate :: "string option"

record Procedure =
  procId :: int
  date :: string
  procedure :: ProcedureType
  m1 :: "int option"
  m2 :: "int option"
  m3 :: "int option"
  m4 :: "int option"
  m5 :: "int option"
  m6 :: "int option"
  m7 :: "int option"

record ProfessorAvailability =
  professor :: Professor
  isAvailable :: bool
  reason :: "string option"
  lastParticipationDate :: "string option"
  consecutiveCount :: int

record JuryRequirements =
  professorCount :: int
  associateProfessorCount :: int
  maxConsecutiveParticipations :: int
  minDaysBetweenParticipations :: int
  maxDistanceForExternal :: int

record JuryComposition =
  professors :: "Professor list"
  associateProfessors :: "Professor list"
  externalMembers :: "Professor list"
  internalMembers :: "Professor list"
  allMembers :: "Professor list"
  errors :: "string list"
  warnings :: "string list"

datatype ProfessorSortCriteria =
  Distance | LastParticipation | ParticipationCount | ScienceRating | Name

record ProfessorFilter =
  availableOnDate :: "string option"
  minScienceRating :: "real option"
  maxScienceRating :: "real option"
  filterUniversity :: "string option"
  excludeIds :: "int list option"
  maxDistance :: "real option"
  filterTitle :: "ProfessorTitle option"

record Workload =
  totalParticipations :: nat
  participationsThisYear :: nat
  averageDaysBetweenParticipations :: "real jsnum"
  lastParticipationDate' :: "string option"

section \<open>Array operations\<close>

text \<open>
  \<^verbatim>\<open>Array.prototype.sort\<close> with a comparator is stable and moves an element behind
  another only when the comparator returns a positive number for the pair; a \<^verbatim>\<open>NaN\<close>
  from the comparator counts as zero. It is modelled by stable insertion. For a
  consistent comparator this is the one order ECMAScript allows. For an inconsistent one
  (a comparator that answers \<^verbatim>\<open>NaN\<close> for some pairs, as a difference of time values
  does when a date does not parse) the order is implementation-defined, and an engine's
  order can differ from the insertion order; the result is still a permutation of the
  input.
\<close>

fun sort_insert :: "('a \<Rightarrow> 'a \<Rightarrow> 'n::{zero,ord} jsnum) \<Rightarrow> 'a \<Rightarrow> 'a list \<Rightarrow> 'a list" where
  "sort_insert cmp x [] = [x]"
| "sort_insert cmp x (y # ys) =
     (if js_gt (cmp x y) (Num 0) then y # sort_insert cmp x ys else x # y # ys)"

fun js_sort :: "('a \<Rightarrow> 'a \<Rightarrow> 'n::{zero,ord} jsnum) \<Rightarrow> 'a list \<Rightarrow> 'a list" where
  "js_sort cmp [] = []"
| "js_sort cmp (x # xs) = sort_insert cmp x (js_sort cmp xs)"

text \<open>\<^verbatim>\<open>xs.slice(0, n)\<close>: a negative \<open>n\<close> counts from the end of the array.\<close>

definition slice0 :: "'a list \<Rightarrow> int \<Rightarrow> 'a list" where
  "slice0 xs n = (if n < 0 then take (nat (int (length xs) + n)) xs else take (nat n) xs)"

text \<open>
  \<^verbatim>\<open>a.localeCompare(b)\<close> depends on the host's collation, which is a consistent
  comparator and answers 0 for a string and itself. The lexicographic order of the
  characters stands in for it: nothing below uses the order it gives to two different
  names.
\<close>

definition localeCompare :: "string \<Rightarrow> string \<Rightarrow> int" where
  "localeCompare a b = (if a < b then - 1 else if b < a then 1 else 0)"

section \<open>Participation history and streak\<close>

text \<open>The filter predicate shared by the streak counter and the history.\<close>

definition participates :: "Professor \<Rightarrow> Procedure \<Rightarrow> bool" where
  "participates prof proc =
     (m1 proc = Some (id' prof) \<or> m2 proc = Some (id' prof) \<or>
      m3 proc = Some (id' prof) \<or> m4 proc = Some (id' prof) \<or>
      m5 proc = Some (id' prof) \<or> m6 proc = Some (id' prof) \<or>
      m7 proc = Some (id' prof))"

definition byDate :: "Procedure \<Rightarrow> Procedure \<Rightarrow> int jsnum" where
  "byDate a b = js_sub (getTime (newDate (date a))) (getTime (newDate (date b)))"

definition getProfessorParticipationHistory :: "Professor \<Rightarrow> Procedure list \<Rightarrow> Procedure list" where
  "getProfessorParticipationHistory prof procedures =
     js_sort byDate (filter (participates prof) procedures)"

text \<open>
  The loop \<^verbatim>\<open>for (let i = participations.length - 1; i > 0; i--)\<close> of
  \<^verbatim>\<open>calculateConsecutiveParticipations\<close>: the second argument is \<open>i\<close>, the third
  the running \<^verbatim>\<open>consecutiveCount\<close>. The loop ends at \<open>i = 0\<close> or at the
  \<^verbatim>\<open>break\<close>.
\<close>

fun streak_loop :: "Procedure list \<Rightarrow> nat \<Rightarrow> int \<Rightarrow> int" where
  "streak_loop participations 0 cnt = cnt"
| "streak_loop participations (Suc j) cnt =
     (let daysDiff = daysBetween (date (participations ! j)) (date (participations ! Suc j))
      in if js_gt daysDiff (Num 30) then cnt
         else streak_loop participations j (cnt + 1))"

definition calculateConsecutiveParticipations :: "Professor \<Rightarrow> Procedure list \<Rightarrow> int" where
  "calculateConsecutiveParticipations prof procedures =
     (let participations = js_sort byDate (filter (participates prof) procedures)
      in if length participations = 0 then 0
         else streak_loop participations (length participations - 1) 1)"

section \<open>Availability\<close>

definition isProfessorAvailable ::
  "Professor \<Rightarrow> string \<Rightarrow> JuryRequirements \<Rightarrow> Procedure list \<Rightarrow> ProfessorAvailability" where
  "isProfessorAvailable prof targetDate requirements procedures =
     (let lastD = lastDate prof;
          afterCooldown =
            (let cnt = calculateConsecutiveParticipations prof procedures
             in if cnt \<ge> maxConsecutiveParticipations requirements then
                  \<lparr>professor = prof, isAvailable = False,
                   reason = Some (''Maximum consecutive participations reached ('' @
                     show_int cnt @ ''/'' @
                     show_int (maxConsecutiveParticipations requirements) @ '')''),
                   lastParticipationDate = lastD, consecutiveCount = cnt\<rparr>
                else
                  \<lparr>professor = prof, isAvailable = True, reason = None,
                   lastParticipationDate = lastD, consecutiveCount = cnt\<rparr>)
      in case lastD of
           None \<Rightarrow> afterCooldown
         | Some l \<Rightarrow>
             if l = [] then afterCooldown
             else
               (let daysSinceLastParticipation = daysBetween l targetDate
                in if js_lt daysSinceLastParticipation (Num (minDaysBetweenParticipations requirements)) then
                     \<lparr>professor = prof, isAvailable = False,
                      reason = Some (''Last participation was '' @
                        show_num daysSinceLastParticipation @ '' days ago (minimum: '' @
                        show_int (minDaysBetweenParticipations requirements) @ '')''),
                      lastParticipationDate = lastD, consecutiveCount = 0\<rparr>
                   else afterCooldown))"

definition getAvailableProfessors ::
  "Professor list \<Rightarrow> string \<Rightarrow> JuryRequirements \<Rightarrow> Procedure list \<Rightarrow> ProfessorFilter option
     \<Rightarrow> ProfessorAvailability list" where
  "getAvailableProfessors profs targetDate requirements procedures filter' =
     (let filteredProfessors =
        (case filter' of
           None \<Rightarrow> profs
         | Some f \<Rightarrow>
             (let fp1 = (case filterTitle f of Some t \<Rightarrow> filter (\<lambda>p. title p = t) profs
                         | None \<Rightarrow> profs);
                  fp2 = (if truthy (filterUniversity f)
                         then filter (\<lambda>p. Some (university p) = filterUniversity f) fp1 else fp1);
                  fp3 = (case minScienceRating f of Some r \<Rightarrow> filter (\<lambda>p. science p \<ge> r) fp2
                         | None \<Rightarrow> fp2);
                  fp4 = (case maxScienceRating f of Some r \<Rightarrow> filter (\<lambda>p. science p \<le> r) fp3
                         | None \<Rightarrow> fp3);
                  fp5 = (case maxDistance f of Some d \<Rightarrow> filter (\<lambda>p. km p \<le> d) fp4
                         | None \<Rightarrow> fp4);
                  fp6 = (case excludeIds f of Some ids \<Rightarrow> filter (\<lambda>p. id' p \<notin> set ids) fp5
                         | None \<Rightarrow> fp5)
              in fp6))
      in map (\<lambda>prof. isProfessorAvailable prof targetDate requirements procedures)
           filteredProfessors)"

section \<open>Sorting candidates\<close>

definition lastDateTime :: "Professor \<Rightarrow> int jsnum" where
  "lastDateTime a = (case lastDate a of None \<Rightarrow> Num 0
     | Some l \<Rightarrow> if l = [] then Num 0 else getTime (newDate l))"

fun comparison :: "ProfessorSortCriteria \<Rightarrow> Professor \<Rightarrow> Professor \<Rightarrow> real jsnum" where
  "comparison Distance a b = Num (km a - km b)"
| "comparison LastParticipation a b =
     (let aDate = lastDateTime a; bDate = lastDateTime b in js_real (js_sub aDate bDate))"
| "comparison ParticipationCount a b = Num (real_of_int (count' a - count' b))"
| "comparison ScienceRating a b = Num (science a - science b)"
| "comparison Name a b = Num (real_of_int (localeCompare (names a) (names b)))"

definition sortProfessors :: "Professor list \<Rightarrow> ProfessorSortCriteria \<Rightarrow> bool \<Rightarrow> Professor list" where
  "sortProfessors profs criteria ascending =
     js_sort (\<lambda>a b. if ascending then comparison criteria a b else js_neg (comparison criteria a b))
       profs"

section \<open>Composition\<close>

definition createJuryComposition ::
  "Professor list \<Rightarrow> Procedure list \<Rightarrow> string \<Rightarrow> JuryRequirements \<Rightarrow> string \<Rightarrow> JuryComposition" where
  "createJuryComposition profs procedures targetDate requirements homeUniversity =
     (let availableProfessors =
            map professor (filter isAvailable
              (getAvailableProfessors profs targetDate requirements procedures None));
          professorsList = filter (\<lambda>p. title p = Profesor) availableProfessors;
          associateProfessorsList = filter (\<lambda>p. title p = Docent) availableProfessors;
          errors1 =
            (if int (length professorsList) < professorCount requirements
             then [''Insufficient professors available: '' @ show_nat (length professorsList) @
                   ''/'' @ show_int (professorCount requirements)]
             else []);
          errors2 =
            (if int (length associateProfessorsList) < associateProfessorCount requirements
             then errors1 @ [''Insufficient associate professors available: '' @
                   show_nat (length associateProfessorsList) @
                   ''/'' @ show_int (associateProfessorCount requirements)]
             else errors1);
          selectedProfessors =
            slice0 (sortProfessors professorsList Distance True) (professorCount requirements);
          selectedAssociateProfessors =
            slice0 (sortProfessors associateProfessorsList Distance True)
              (associateProfessorCount requirements);
          allMembs = selectedProfessors @ selectedAssociateProfessors;
          internalMembs = filter (\<lambda>p. university p = homeUniversity) allMembs;
          externalMembs = filter (\<lambda>p. university p \<noteq> homeUniversity) allMembs;
          distantExternalMembers =
            filter (\<lambda>p. km p > real_of_int (maxDistanceForExternal requirements)) externalMembs;
          warns =
            (if length distantExternalMembers > 0
             then [show_nat (length distantExternalMembers) @
                   '' external members exceed maximum distance ('' @
                   show_int (maxDistanceForExternal requirements) @ ''km)'']
             else [])
      in \<lparr>professors = selectedProfessors,
          associateProfessors = selectedAssociateProfessors,
          externalMembers = externalMembs,
          internalMembers = internalMembs,
          allMembers = allMembs,
          errors = errors2,
          warnings = warns\<rparr>)"

section \<open>Workload\<close>

text \<open>
  \<^verbatim>\<open>if (year)\<close> is false for an absent year and for the number zero.
  The \<^verbatim>\<open>reduce\<close> visits the indices in order, with \<open>sum\<close> starting at 0.
  The first argument is the host's local time zone adjustment, which
  \<^verbatim>\<open>getFullYear\<close> reads.
\<close>

definition calculateProfessorWorkload ::
  "(int \<Rightarrow> int) \<Rightarrow> Professor \<Rightarrow> Procedure list \<Rightarrow> int option \<Rightarrow> Workload" where
  "calculateProfessorWorkload localTZA prof procedures year =
     (let history = getProfessorParticipationHistory prof procedures;
          thisYear =
            (case year of
               None \<Rightarrow> length history
             | Some y \<Rightarrow>
                 if y = 0 then length history
                 else length (filter (\<lambda>proc. js_strict_eq (getFullYear localTZA (newDate (date proc))) (Num y))
                        history));
          averageDaysBetween =
            (if length history > 1 then
               (let totalDays =
                      foldl (\<lambda>sum index. if index = 0 then Num 0
                               else js_add sum (daysBetween (date (history ! (index - 1)))
                                                  (date (history ! index))))
                        (Num 0) [0..<length history]
                in case totalDays of
                     NaN \<Rightarrow> NaN
                   | Num t \<Rightarrow> Num (real_of_int t / real (length history - 1)))
             else Num 0)
      in \<lparr>totalParticipations = length history,
          participationsThisYear = thisYear,
          averageDaysBetweenParticipations = averageDaysBetween,
          lastParticipationDate' =
            (if length history > 0 then Some (date (history ! (length history - 1))) else None)\<rparr>)"

section \<open>Notions used to state the properties\<close>

text \<open>
  The eligible pool of a call of \<^verbatim>\<open>createJuryComposition\<close>: the professors whose
  availability verdict for the target date is positive, in input order.
\<close>

definition eligiblePool :: "Professor list \<Rightarrow> Procedure list \<Rightarrow> string \<Rightarrow> JuryRequirements \<Rightarrow> Professor list" where
  "eligiblePool profs procedures targetDate requirements =
     filter (\<lambda>p. isAvailable (isProfessorAvailable p targetDate requirements procedures)) profs"

text \<open>
  Rule 1 of the availability decision as the specification words it: the last
  participation date is present and the day gap to the target date is below the minimum.
\<close>

definition cooldownApplies :: "Professor \<Rightarrow> string \<Rightarrow> JuryRequirements \<Rightarrow> bool" where
  "cooldownApplies prof targetDate requirements =
     (case lastDate prof of
        None \<Rightarrow> False
      | Some l \<Rightarrow> js_lt (daysBetween l targetDate) (Num (minDaysBetweenParticipations requirements)))"


text \<open>
  The sort key that the comparator of \<^verbatim>\<open>sortProfessors\<close> reads for each criterion: a
  number (the time value of the last date is 0 for an absent date and \<^verbatim>\<open>NaN\<close> for
  one that does not parse) or, for the name, a string. Two professors are in one tie group
  when their keys are equal. \<open>precedes\<close> is the order of two numeric keys in the
  chosen direction; it is not defined for names, whose order is the host's.
\<close>

datatype sortKeyValue = NumKey "real jsnum" | StrKey string

fun sortKey :: "ProfessorSortCriteria \<Rightarrow> Professor \<Rightarrow> sortKeyValue" where
  "sortKey Distance p = NumKey (Num (km p))"
| "sortKey LastParticipation p = NumKey (js_real (lastDateTime p))"
| "sortKey ParticipationCount p = NumKey (Num (real_of_int (count' p)))"
| "sortKey ScienceRating p = NumKey (Num (science p))"
| "sortKey Name p = StrKey (names p)"

fun precedes :: "bool \<Rightarrow> sortKeyValue \<Rightarrow> sortKeyValue \<Rightarrow> bool" where
  "precedes ascending (NumKey (Num x)) (NumKey (Num y)) = (if ascending then x \<le> y else y \<le> x)"
| "precedes ascending _ _ = False"

text \<open>The comparator that \<^verbatim>\<open>sortProfessors\<close> hands to the sort.\<close>

definition directed :: "ProfessorSortCriteria \<Rightarrow> bool \<Rightarrow> Professor \<Rightarrow> Professor \<Rightarrow> real jsnum" where
  "directed criteria ascending a b =
     (if ascending then comparison criteria a b else js_neg (comparison criteria a b))"

text \<open>
  Two professors differ at most in the lifetime participation counter when they are equal
  after the counter is set to a fixed value.
\<close>

definition eraseCount :: "Professor \<Rightarrow> Professor" where
  "eraseCount p = p\<lparr>count' := 0\<rparr>"

subsection \<open>Example data\<close>

text \<open>
  \<^verbatim>\<open>DEFAULT_JURY_REQUIREMENTS\<close> of \<^verbatim>\<open>lib/data-loader\<close>; professors 1, 2, 3 and 6
  and procedures 1, 2 and 3 of \<^verbatim>\<open>data/sample-jury-data\<close>, with names and
  universities transliterated; and the first procedure of
  \<^verbatim>\<open>examples/jury-system-example.ts\<close>.
\<close>

definition DEFAULT_JURY_REQUIREMENTS :: JuryRequirements where
  "DEFAULT_JURY_REQUIREMENTS =
     \<lparr>professorCount = 3, associateProfessorCount = 2, maxConsecutiveParticipations = 3,
      minDaysBetweenParticipations = 30, maxDistanceForExternal = 100\<rparr>"

definition sampleProfessor1 :: Professor where
  "sampleProfessor1 =
     \<lparr>id' = 1, title = Profesor, names = ''Ivan Petrov'', science = 47 / 10,
      university = ''Sofia University'', km = 0, count' = 5,
      preLastDate = Some ''2023-01-15'', lastDate = Some ''2023-06-20''\<rparr>"

definition sampleProfessor2 :: Professor where
  "sampleProfessor2 =
     \<lparr>id' = 2, title = Docent, names = ''Maria Georgieva'', science = 48 / 10,
      university = ''Plovdiv University'', km = 120, count' = 3,
      preLastDate = Some ''2023-02-10'', lastDate = Some ''2023-05-15''\<rparr>"

definition sampleProfessor3 :: Professor where
  "sampleProfessor3 =
     \<lparr>id' = 3, title = Profesor, names = ''Petar Stoyanov'', science = 46 / 10,
      university = ''Varna Free University'', km = 350, count' = 7,
      preLastDate = Some ''2023-01-20'', lastDate = Some ''2023-07-10''\<rparr>"

definition sampleProfessor6 :: Professor where
  "sampleProfessor6 =
     \<lparr>id' = 6, title = Docent, names = ''Elena Nikolova'', science = 48 / 10,
      university = ''Sofia University'', km = 0, count' = 3,
      preLastDate = Some ''2023-04-10'', lastDate = Some ''2023-09-05''\<rparr>"

definition sampleProcedure1 :: Procedure where
  "sampleProcedure1 =
     \<lparr>procId = 1, date = ''2023-12-15'', procedure = DoktorProc,
      m1 = Some 1, m2 = Some 2, m3 = Some 3, m4 = Some 4, m5 = Some 5, m6 = None, m7 = None\<rparr>"

definition sampleProcedure2 :: Procedure where
  "sampleProcedure2 =
     \<lparr>procId = 2, date = ''2023-12-20'', procedure = DocentProc,
      m1 = Some 2, m2 = Some 3, m3 = Some 4, m4 = Some 5, m5 = Some 1, m6 = None, m7 = None\<rparr>"

definition sampleProcedure3 :: Procedure where
  "sampleProcedure3 =
     \<lparr>procId = 3, date = ''2023-12-22'', procedure = ProfesorProc,
      m1 = Some 3, m2 = Some 4, m3 = Some 5, m4 = Some 1, m5 = Some 2, m6 = None, m7 = None\<rparr>"

definition exampleProcedure1 :: Procedure where
  "exampleProcedure1 =
     \<lparr>procId = 1, date = ''2023-06-20'', procedure = DoktorProc,
      m1 = Some 1, m2 = Some 2, m3 = Some 3, m4 = Some 4, m5 = Some 5, m6 = None, m7 = None\<rparr>"

section \<open>Properties of the sort\<close>

text \<open>
  The sort returns a permutation of its input, keeps the input order of every group of
  elements that the comparator does not separate, and commutes with a map that the
  comparator does not see.
\<close>

lemma mset_sort_insert: "mset (sort_insert cmp x xs) = add_mset x (mset xs)"
  by (induction xs) auto

lemma mset_js_sort: "mset (js_sort cmp xs) = mset xs"
  by (induction xs) (auto simp: mset_sort_insert)

lemma set_js_sort: "set (js_sort cmp xs) = set xs"
  using mset_js_sort [of cmp xs] by (metis set_mset_mset)

lemma length_js_sort: "length (js_sort cmp xs) = length xs"
  using mset_js_sort [of cmp xs] by (metis size_mset)

lemma filter_sort_insert_out: "\<not> P x \<Longrightarrow> filter P (sort_insert cmp x xs) = filter P xs"
  by (induction xs) auto

lemma filter_sort_insert_in:
  "P x \<Longrightarrow> \<forall>y\<in>set xs. P y \<longrightarrow> \<not> js_gt (cmp x y) (Num 0) \<Longrightarrow>
     filter P (sort_insert cmp x xs) = x # filter P xs"
  by (induction xs) auto

lemma js_sort_stable:
  assumes tie: "\<And>x y. k x = k y \<Longrightarrow> \<not> js_gt (cmp x y) (Num 0)"
  shows "filter (\<lambda>y. k y = v) (js_sort cmp xs) = filter (\<lambda>y. k y = v) xs"
proof (induction xs)
  case Nil
  show ?case by simp
next
  case (Cons x xs)
  show ?case
  proof (cases "k x = v")
    case True
    have "\<forall>y\<in>set (js_sort cmp xs). k y = v \<longrightarrow> \<not> js_gt (cmp x y) (Num 0)"
      using tie True by simp
    then have "filter (\<lambda>y. k y = v) (sort_insert cmp x (js_sort cmp xs))
        = x # filter (\<lambda>y. k y = v) (js_sort cmp xs)"
      using True by (intro filter_sort_insert_in) auto
    then show ?thesis using True Cons.IH by simp
  next
    case False
    then show ?thesis using Cons.IH by (simp add: filter_sort_insert_out)
  qed
qed

lemma sort_insert_map:
  assumes "\<And>a b. cmp' (f a) (f b) = cmp a b"
  shows "sort_insert cmp' (f x) (map f xs) = map f (sort_insert cmp x xs)"
  using assms by (induction xs) auto

lemma js_sort_map:
  assumes "\<And>a b. cmp' (f a) (f b) = cmp a b"
  shows "js_sort cmp' (map f xs) = map f (js_sort cmp xs)"
  using assms by (induction xs) (auto simp: sort_insert_map)



section \<open>Composition invariants\<close>

lemma professor_isProfessorAvailable:
  "professor (isProfessorAvailable p t r procs) = p"
  by (simp add: isProfessorAvailable_def Let_def split: option.split)

lemma availableProfessors_eligiblePool:
  "map professor (filter isAvailable (getAvailableProfessors profs t r procs None))
     = eligiblePool profs procs t r"
  by (induction profs)
     (simp_all add: getAvailableProfessors_def eligiblePool_def professor_isProfessorAvailable)

lemma professors_createJuryComposition:
  "professors (createJuryComposition profs procs t r home) =
     slice0 (sortProfessors (filter (\<lambda>p. title p = Profesor) (eligiblePool profs procs t r)) Distance True)
       (professorCount r)"
  by (simp add: createJuryComposition_def Let_def availableProfessors_eligiblePool)

lemma associateProfessors_createJuryComposition:
  "associateProfessors (createJuryComposition profs procs t r home) =
     slice0 (sortProfessors (filter (\<lambda>p. title p = Docent) (eligiblePool profs procs t r)) Distance True)
       (associateProfessorCount r)"
  by (simp add: createJuryComposition_def Let_def availableProfessors_eligiblePool)

lemma allMembers_createJuryComposition:
  "allMembers (createJuryComposition profs procs t r home) =
     professors (createJuryComposition profs procs t r home) @
     associateProfessors (createJuryComposition profs procs t r home)"
  by (simp add: createJuryComposition_def Let_def)

lemma internalMembers_createJuryComposition:
  "internalMembers (createJuryComposition profs procs t r home) =
     filter (\<lambda>p. university p = home) (allMembers (createJuryComposition profs procs t r home))"
  by (simp add: createJuryComposition_def Let_def)

lemma externalMembers_createJuryComposition:
  "externalMembers (createJuryComposition profs procs t r home) =
     filter (\<lambda>p. university p \<noteq> home) (allMembers (createJuryComposition profs procs t r home))"
  by (simp add: createJuryComposition_def Let_def)

lemma length_slice0: "0 \<le> n \<Longrightarrow> int (length (slice0 xs n)) \<le> n"
  by (simp add: slice0_def)

lemma set_slice0: "set (slice0 xs n) \<subseteq> set xs"
  by (auto simp: slice0_def dest: in_set_takeD)

lemma set_sortProfessors: "set (sortProfessors xs c a) = set xs"
  by (simp add: sortProfessors_def set_js_sort)

lemma distinct_map_slice0: "distinct (map f xs) \<Longrightarrow> distinct (map f (slice0 xs n))"
  by (simp add: slice0_def take_map [symmetric] del: take_map)

lemma distinct_map_sortProfessors:
  "distinct (map f xs) \<Longrightarrow> distinct (map f (sortProfessors xs c a))"
proof -
  have "mset (map f (sortProfessors xs c a)) = mset (map f xs)"
    by (simp add: sortProfessors_def mset_js_sort)
  then show "distinct (map f xs) \<Longrightarrow> distinct (map f (sortProfessors xs c a))"
    by (metis mset_eq_imp_distinct_iff)
qed

lemma set_eligiblePool: "set (eligiblePool profs procs t r) \<subseteq> set profs"
  by (auto simp: eligiblePool_def)

lemma distinct_ids_allMembers:
  assumes d: "distinct (map id' profs)"
  shows "distinct (map id' (allMembers (createJuryComposition profs procs t r home)))"
proof -
  let ?pool = "eligiblePool profs procs t r"
  let ?P = "filter (\<lambda>p. title p = Profesor) ?pool"
  let ?A = "filter (\<lambda>p. title p = Docent) ?pool"
  have dpool: "distinct (map id' ?pool)"
    using d by (simp add: eligiblePool_def distinct_map_filter)
  have inj: "inj_on id' (set profs)"
    using d by (simp add: distinct_map)
  have dP: "distinct (map id' (slice0 (sortProfessors ?P Distance True) (professorCount r)))"
    by (intro distinct_map_slice0 distinct_map_sortProfessors distinct_map_filter dpool)
  have dA: "distinct (map id' (slice0 (sortProfessors ?A Distance True) (associateProfessorCount r)))"
    by (intro distinct_map_slice0 distinct_map_sortProfessors distinct_map_filter dpool)
  have sP: "set (slice0 (sortProfessors ?P Distance True) (professorCount r))
              \<subseteq> {p \<in> set profs. title p = Profesor}"
    using set_slice0 [of "sortProfessors ?P Distance True" "professorCount r"]
          set_eligiblePool [of profs procs t r]
    by (auto simp: set_sortProfessors)
  have sA: "set (slice0 (sortProfessors ?A Distance True) (associateProfessorCount r))
              \<subseteq> {p \<in> set profs. title p = Docent}"
    using set_slice0 [of "sortProfessors ?A Distance True" "associateProfessorCount r"]
          set_eligiblePool [of profs procs t r]
    by (auto simp: set_sortProfessors)
  have disj: "id' ` {p \<in> set profs. title p = Profesor} \<inter> id' ` {p \<in> set profs. title p = Docent} = {}"
  proof (rule ccontr)
    assume "\<not> ?thesis"
    then obtain p q where pq: "p \<in> set profs" "q \<in> set profs" "id' p = id' q"
      and ti: "title p = Profesor" "title q = Docent" by auto
    have "p = q" using inj_onD [OF inj, of p q] pq by simp
    then show False using ti by simp
  qed
  have "id' ` set (slice0 (sortProfessors ?P Distance True) (professorCount r)) \<inter>
        id' ` set (slice0 (sortProfessors ?A Distance True) (associateProfessorCount r)) = {}"
    using sP sA disj by blast
  then show ?thesis
    using dP dA
    by (simp add: allMembers_createJuryComposition professors_createJuryComposition
          associateProfessors_createJuryComposition)
qed

text \<open>
  Claim C1. For non-negative quotas, the composition returned by
  \<^verbatim>\<open>createJuryComposition\<close> has \<open>allMembers\<close> equal to the selected professors
  followed by the selected associate professors; the internal and the external members
  partition \<open>allMembers\<close> (together they are all members, no record is in both, and
  when the professor ids of the input are distinct no id is in both); and each rank holds
  at most its quota.
\<close>

theorem createJuryComposition_invariants:
  assumes "0 \<le> professorCount r" and "0 \<le> associateProfessorCount r"
  shows "let c = createJuryComposition profs procs t r home in
           allMembers c = professors c @ associateProfessors c \<and>
           length (allMembers c) = length (professors c) + length (associateProfessors c) \<and>
           mset (internalMembers c) + mset (externalMembers c) = mset (allMembers c) \<and>
           length (internalMembers c) + length (externalMembers c) = length (allMembers c) \<and>
           set (internalMembers c) \<inter> set (externalMembers c) = {} \<and>
           set (internalMembers c) \<union> set (externalMembers c) = set (allMembers c) \<and>
           (distinct (map id' profs) \<longrightarrow>
              distinct (map id' (allMembers c)) \<and>
              id' ` set (internalMembers c) \<inter> id' ` set (externalMembers c) = {}) \<and>
           int (length (professors c)) \<le> professorCount r \<and>
           int (length (associateProfessors c)) \<le> associateProfessorCount r"
proof -
  let ?c = "createJuryComposition profs procs t r home"
  have all: "allMembers ?c = professors ?c @ associateProfessors ?c"
    by (rule allMembers_createJuryComposition)
  have part: "mset (internalMembers ?c) + mset (externalMembers ?c) = mset (allMembers ?c)"
    by (simp add: internalMembers_createJuryComposition externalMembers_createJuryComposition)
  have len: "length (internalMembers ?c) + length (externalMembers ?c) = length (allMembers ?c)"
    using part by (metis size_mset size_union)
  have disj: "set (internalMembers ?c) \<inter> set (externalMembers ?c) = {}"
    by (auto simp: internalMembers_createJuryComposition externalMembers_createJuryComposition)
  have un: "set (internalMembers ?c) \<union> set (externalMembers ?c) = set (allMembers ?c)"
    by (auto simp: internalMembers_createJuryComposition externalMembers_createJuryComposition)
  have ids: "id' ` set (internalMembers ?c) \<inter> id' ` set (externalMembers ?c) = {}"
    if "distinct (map id' profs)"
  proof -
    have "inj_on id' (set (allMembers ?c))"
      using distinct_ids_allMembers [OF that, of procs t r home] by (simp add: distinct_map)
    then have "id' ` (set (internalMembers ?c) \<inter> set (externalMembers ?c))
                 = id' ` set (internalMembers ?c) \<inter> id' ` set (externalMembers ?c)"
      using un by (intro inj_on_image_Int [of id' "set (allMembers ?c)"]) auto
    then show ?thesis using disj by simp
  qed
  have lp: "int (length (professors ?c)) \<le> professorCount r"
    using assms(1) by (simp add: professors_createJuryComposition length_slice0)
  have la: "int (length (associateProfessors ?c)) \<le> associateProfessorCount r"
    using assms(2) by (simp add: associateProfessors_createJuryComposition length_slice0)
  show ?thesis
    unfolding Let_def
    using all part len disj un ids lp la distinct_ids_allMembers [of profs procs t r home]
    by simp
qed

theorem createJuryComposition_invariants_witness:
  "0 \<le> professorCount DEFAULT_JURY_REQUIREMENTS \<and>
   0 \<le> associateProfessorCount DEFAULT_JURY_REQUIREMENTS \<and>
   distinct (map id' [sampleProfessor1, sampleProfessor2, sampleProfessor3]) \<and>
   (let c = createJuryComposition [sampleProfessor1, sampleProfessor2, sampleProfessor3]
              [sampleProcedure1] ''2024-03-01'' DEFAULT_JURY_REQUIREMENTS ''Sofia University''
    in allMembers c = professors c @ associateProfessors c \<and>
       mset (internalMembers c) + mset (externalMembers c) = mset (allMembers c) \<and>
       set (internalMembers c) \<inter> set (externalMembers c) = {} \<and>
       distinct (map id' (allMembers c)) \<and>
       id' ` set (internalMembers c) \<inter> id' ` set (externalMembers c) = {} \<and>
       int (length (professors c)) \<le> 3 \<and>
       int (length (associateProfessors c)) \<le> 2)"
proof -
  have q1: "0 \<le> professorCount DEFAULT_JURY_REQUIREMENTS"
    by (simp add: DEFAULT_JURY_REQUIREMENTS_def)
  have q2: "0 \<le> associateProfessorCount DEFAULT_JURY_REQUIREMENTS"
    by (simp add: DEFAULT_JURY_REQUIREMENTS_def)
  have d: "distinct (map id' [sampleProfessor1, sampleProfessor2, sampleProfessor3])"
    by (simp add: sampleProfessor1_def sampleProfessor2_def sampleProfessor3_def)
  have c3: "professorCount DEFAULT_JURY_REQUIREMENTS = 3"
    and c2: "associateProfessorCount DEFAULT_JURY_REQUIREMENTS = 2"
    by (simp_all add: DEFAULT_JURY_REQUIREMENTS_def)
  note th = createJuryComposition_invariants [OF q1 q2,
        of "[sampleProfessor1, sampleProfessor2, sampleProfessor3]" "[sampleProcedure1]"
           "''2024-03-01''" "''Sofia University''", unfolded Let_def c3 c2]
  show ?thesis
    unfolding Let_def using th q1 q2 d by blast
qed

section \<open>Availability decision\<close>

lemma newDate_empty: "newDate [] = NaN"
  by (simp add: newDate_def parseDatePart_def digitsField_def)

lemma daysBetween_NaN: "newDate a = NaN \<or> newDate b = NaN \<Longrightarrow> daysBetween a b = NaN"
  by (auto simp: daysBetween_def getTime_def Let_def)

lemma daysBetween_Num:
  "newDate a = Num x \<Longrightarrow> newDate b = Num y \<Longrightarrow> daysBetween a b = Num (- ((- \<bar>y - x\<bar>) div 86400000))"
  by (simp add: daysBetween_def getTime_def Let_def)

lemma cooldownApplies_nonempty:
  "lastDate prof = Some l \<Longrightarrow> cooldownApplies prof t r \<Longrightarrow> l \<noteq> []"
  by (auto simp: cooldownApplies_def daysBetween_NaN newDate_empty)

lemma isProfessorAvailable_cooldown:
  assumes "lastDate prof = Some l" and "cooldownApplies prof t r"
  shows "isProfessorAvailable prof t r procs =
     \<lparr>professor = prof, isAvailable = False,
      reason = Some (''Last participation was '' @ show_num (daysBetween l t) @
                     '' days ago (minimum: '' @ show_int (minDaysBetweenParticipations r) @ '')''),
      lastParticipationDate = Some l, consecutiveCount = 0\<rparr>"
proof -
  have "l \<noteq> []" using assms by (rule cooldownApplies_nonempty)
  moreover have "js_lt (daysBetween l t) (Num (minDaysBetweenParticipations r))"
    using assms by (simp add: cooldownApplies_def)
  ultimately show ?thesis
    using assms(1) by (simp add: isProfessorAvailable_def Let_def)
qed

lemma isProfessorAvailable_no_cooldown:
  assumes "\<not> cooldownApplies prof t r"
  shows "isProfessorAvailable prof t r procs =
     (if calculateConsecutiveParticipations prof procs \<ge> maxConsecutiveParticipations r then
        \<lparr>professor = prof, isAvailable = False,
         reason = Some (''Maximum consecutive participations reached ('' @
                     show_int (calculateConsecutiveParticipations prof procs) @ ''/'' @
                     show_int (maxConsecutiveParticipations r) @ '')''),
         lastParticipationDate = lastDate prof,
         consecutiveCount = calculateConsecutiveParticipations prof procs\<rparr>
      else
        \<lparr>professor = prof, isAvailable = True, reason = None,
         lastParticipationDate = lastDate prof,
         consecutiveCount = calculateConsecutiveParticipations prof procs\<rparr>)"
  using assms
  by (cases "lastDate prof") (simp_all add: isProfessorAvailable_def cooldownApplies_def Let_def)

lemma cooldownApplies_gap:
  "cooldownApplies prof t r \<Longrightarrow>
     \<exists>l gap. lastDate prof = Some l \<and> daysBetween l t = Num gap \<and>
       gap < minDaysBetweenParticipations r"
  by (cases "lastDate prof"; cases "daysBetween (the (lastDate prof)) t")
     (auto simp: cooldownApplies_def)

lemma daysBetween_scenario: "daysBetween ''2023-06-20'' ''2023-07-10'' = Num 20"
  by code_simp

lemma show_int_20: "show_int 20 = ''20''"
  by (simp add: show_int_def show_nat.simps digit_char_def)

lemma show_int_30: "show_int 30 = ''30''"
  by (simp add: show_int_def show_nat.simps digit_char_def)

text \<open>
  Claim C2. \<^verbatim>\<open>isProfessorAvailable\<close> decides in a fixed order. When the last date is
  present and the day gap to the target date is below the minimum, the professor is
  unavailable and the reason gives the gap and the minimum. Otherwise, when the streak
  reaches the cap, the professor is unavailable and the reason gives the streak and the
  cap. Otherwise the professor is available. For the last date 2023-06-20, the target
  date 2023-07-10 and a minimum of 30 days the verdict is unavailable, with the reason
  "Last participation was 20 days ago (minimum: 30)".
\<close>

theorem isProfessorAvailable_decision_order:
  "let res = isProfessorAvailable prof t r procs;
       streak = calculateConsecutiveParticipations prof procs
   in (cooldownApplies prof t r \<longrightarrow>
         \<not> isAvailable res \<and>
         (\<exists>l gap. lastDate prof = Some l \<and> daysBetween l t = Num gap \<and>
            gap < minDaysBetweenParticipations r \<and>
            reason res = Some (''Last participation was '' @ show_int gap @
               '' days ago (minimum: '' @ show_int (minDaysBetweenParticipations r) @ '')''))) \<and>
      (\<not> cooldownApplies prof t r \<and> streak \<ge> maxConsecutiveParticipations r \<longrightarrow>
         \<not> isAvailable res \<and>
         reason res = Some (''Maximum consecutive participations reached ('' @ show_int streak @
               ''/'' @ show_int (maxConsecutiveParticipations r) @ '')'')) \<and>
      (\<not> cooldownApplies prof t r \<and> streak < maxConsecutiveParticipations r \<longrightarrow>
         isAvailable res \<and> reason res = None) \<and>
      (lastDate prof = Some ''2023-06-20'' \<and> t = ''2023-07-10'' \<and>
       minDaysBetweenParticipations r = 30 \<longrightarrow>
         \<not> isAvailable res \<and>
         reason res = Some ''Last participation was 20 days ago (minimum: 30)'')"
proof -
  let ?res = "isProfessorAvailable prof t r procs"
  have r1: "\<not> isAvailable ?res \<and>
         (\<exists>l gap. lastDate prof = Some l \<and> daysBetween l t = Num gap \<and>
            gap < minDaysBetweenParticipations r \<and>
            reason ?res = Some (''Last participation was '' @ show_int gap @
               '' days ago (minimum: '' @ show_int (minDaysBetweenParticipations r) @ '')''))"
    if c: "cooldownApplies prof t r"
  proof -
    obtain l gap where l: "lastDate prof = Some l" and g: "daysBetween l t = Num gap"
      and lt: "gap < minDaysBetweenParticipations r"
      using cooldownApplies_gap [OF c] by blast
    show ?thesis
      using isProfessorAvailable_cooldown [OF l c, of procs] l g lt by simp
  qed
  have r2: "\<not> isAvailable ?res \<and>
         reason ?res = Some (''Maximum consecutive participations reached ('' @
               show_int (calculateConsecutiveParticipations prof procs) @
               ''/'' @ show_int (maxConsecutiveParticipations r) @ '')'')"
    if "\<not> cooldownApplies prof t r"
      and "calculateConsecutiveParticipations prof procs \<ge> maxConsecutiveParticipations r"
    using that by (simp add: isProfessorAvailable_no_cooldown)
  have r3: "isAvailable ?res \<and> reason ?res = None"
    if "\<not> cooldownApplies prof t r"
      and "calculateConsecutiveParticipations prof procs < maxConsecutiveParticipations r"
    using that by (simp add: isProfessorAvailable_no_cooldown)
  have r4: "\<not> isAvailable ?res \<and>
         reason ?res = Some ''Last participation was 20 days ago (minimum: 30)''"
    if l: "lastDate prof = Some ''2023-06-20''" and t: "t = ''2023-07-10''"
      and m: "minDaysBetweenParticipations r = 30"
  proof -
    have c: "cooldownApplies prof t r"
      using l t m by (simp add: cooldownApplies_def daysBetween_scenario)
    show ?thesis
      using isProfessorAvailable_cooldown [OF l c, of procs] t m
      by (simp add: daysBetween_scenario show_int_20 show_int_30)
  qed
  show ?thesis
    unfolding Let_def using r1 r2 r3 r4 by blast
qed


theorem isProfessorAvailable_decision_order_witness:
  "cooldownApplies sampleProfessor1 ''2023-07-10'' DEFAULT_JURY_REQUIREMENTS \<and>
   lastDate sampleProfessor1 = Some ''2023-06-20'' \<and>
   minDaysBetweenParticipations DEFAULT_JURY_REQUIREMENTS = 30 \<and>
   \<not> isAvailable (isProfessorAvailable sampleProfessor1 ''2023-07-10'' DEFAULT_JURY_REQUIREMENTS []) \<and>
   reason (isProfessorAvailable sampleProfessor1 ''2023-07-10'' DEFAULT_JURY_REQUIREMENTS [])
     = Some ''Last participation was 20 days ago (minimum: 30)'' \<and>
   \<not> cooldownApplies sampleProfessor1 ''2024-03-01'' DEFAULT_JURY_REQUIREMENTS \<and>
   calculateConsecutiveParticipations sampleProfessor1
       [sampleProcedure1, sampleProcedure2, sampleProcedure3]
     \<ge> maxConsecutiveParticipations DEFAULT_JURY_REQUIREMENTS \<and>
   \<not> isAvailable (isProfessorAvailable sampleProfessor1 ''2024-03-01'' DEFAULT_JURY_REQUIREMENTS
       [sampleProcedure1, sampleProcedure2, sampleProcedure3]) \<and>
   reason (isProfessorAvailable sampleProfessor1 ''2024-03-01'' DEFAULT_JURY_REQUIREMENTS
       [sampleProcedure1, sampleProcedure2, sampleProcedure3])
     = Some ''Maximum consecutive participations reached (3/3)'' \<and>
   calculateConsecutiveParticipations sampleProfessor1 [sampleProcedure1]
     < maxConsecutiveParticipations DEFAULT_JURY_REQUIREMENTS \<and>
   isAvailable (isProfessorAvailable sampleProfessor1 ''2024-03-01'' DEFAULT_JURY_REQUIREMENTS
       [sampleProcedure1]) \<and>
   reason (isProfessorAvailable sampleProfessor1 ''2024-03-01'' DEFAULT_JURY_REQUIREMENTS
       [sampleProcedure1]) = None"
proof -
  have c1: "cooldownApplies sampleProfessor1 ''2023-07-10'' DEFAULT_JURY_REQUIREMENTS"
    by code_simp
  have l1: "lastDate sampleProfessor1 = Some ''2023-06-20''"
    by (simp add: sampleProfessor1_def)
  have m1: "minDaysBetweenParticipations DEFAULT_JURY_REQUIREMENTS = 30"
    and mx: "maxConsecutiveParticipations DEFAULT_JURY_REQUIREMENTS = 3"
    by (simp_all add: DEFAULT_JURY_REQUIREMENTS_def)
  have c2: "\<not> cooldownApplies sampleProfessor1 ''2024-03-01'' DEFAULT_JURY_REQUIREMENTS"
    by code_simp
  have s3: "calculateConsecutiveParticipations sampleProfessor1
       [sampleProcedure1, sampleProcedure2, sampleProcedure3] = 3"
    by code_simp
  have s1: "calculateConsecutiveParticipations sampleProfessor1 [sampleProcedure1] = 1"
    by code_simp
  have n3: "show_int 3 = ''3''"
    by (simp add: show_int_def show_nat.simps digit_char_def)
  note a = isProfessorAvailable_decision_order
      [of sampleProfessor1 "''2023-07-10''" DEFAULT_JURY_REQUIREMENTS "[]", unfolded Let_def]
  note b = isProfessorAvailable_decision_order
      [of sampleProfessor1 "''2024-03-01''" DEFAULT_JURY_REQUIREMENTS
          "[sampleProcedure1, sampleProcedure2, sampleProcedure3]", unfolded Let_def s3 mx n3]
  note c = isProfessorAvailable_decision_order
      [of sampleProfessor1 "''2024-03-01''" DEFAULT_JURY_REQUIREMENTS "[sampleProcedure1]",
       unfolded Let_def s1 mx]
  have A: "\<not> isAvailable (isProfessorAvailable sampleProfessor1 ''2023-07-10'' DEFAULT_JURY_REQUIREMENTS []) \<and>
     reason (isProfessorAvailable sampleProfessor1 ''2023-07-10'' DEFAULT_JURY_REQUIREMENTS [])
       = Some ''Last participation was 20 days ago (minimum: 30)''"
    using a l1 m1 by blast
  have B: "\<not> isAvailable (isProfessorAvailable sampleProfessor1 ''2024-03-01'' DEFAULT_JURY_REQUIREMENTS
       [sampleProcedure1, sampleProcedure2, sampleProcedure3]) \<and>
     reason (isProfessorAvailable sampleProfessor1 ''2024-03-01'' DEFAULT_JURY_REQUIREMENTS
       [sampleProcedure1, sampleProcedure2, sampleProcedure3])
       = Some ''Maximum consecutive participations reached (3/3)''"
    using b c2 by simp
  have C: "isAvailable (isProfessorAvailable sampleProfessor1 ''2024-03-01'' DEFAULT_JURY_REQUIREMENTS
       [sampleProcedure1]) \<and>
     reason (isProfessorAvailable sampleProfessor1 ''2024-03-01'' DEFAULT_JURY_REQUIREMENTS
       [sampleProcedure1]) = None"
    using c c2 by simp
  show ?thesis
    using c1 l1 m1 A c2 B C by (simp add: s3 s1 mx)
qed

text \<open>
  Claim C7 says that \<open>consecutiveCount\<close> is the computed streak in every branch. The
  branch of the cooldown rule returns before the streak is computed and reports 0: for
  the first sample professor on 2023-07-10 the field is 0 while the streak is 1.
\<close>

theorem consecutiveCount_cooldown_counterexample:
  "consecutiveCount (isProfessorAvailable sampleProfessor1 ''2023-07-10''
       DEFAULT_JURY_REQUIREMENTS [exampleProcedure1]) = 0 \<and>
   calculateConsecutiveParticipations sampleProfessor1 [exampleProcedure1] = 1"
  by code_simp

text \<open>
  Claim C7, amended. \<open>consecutiveCount\<close> is the value of
  \<^verbatim>\<open>calculateConsecutiveParticipations\<close> whenever the cooldown rule does not reject
  (in the streak rejection and in the positive verdict); when the cooldown rule rejects,
  the field is 0.
\<close>

theorem isProfessorAvailable_consecutiveCount:
  "let res = isProfessorAvailable prof t r procs
   in (cooldownApplies prof t r \<longrightarrow> consecutiveCount res = 0) \<and>
      (\<not> cooldownApplies prof t r \<longrightarrow>
         consecutiveCount res = calculateConsecutiveParticipations prof procs)"
proof -
  have "consecutiveCount (isProfessorAvailable prof t r procs) = 0" if c: "cooldownApplies prof t r"
  proof -
    obtain l where "lastDate prof = Some l"
      using cooldownApplies_gap [OF c] by blast
    then show ?thesis using isProfessorAvailable_cooldown [OF _ c, of l procs] by simp
  qed
  moreover have "consecutiveCount (isProfessorAvailable prof t r procs)
       = calculateConsecutiveParticipations prof procs" if "\<not> cooldownApplies prof t r"
    using that by (simp add: isProfessorAvailable_no_cooldown)
  ultimately show ?thesis unfolding Let_def by blast
qed

theorem isProfessorAvailable_consecutiveCount_witness:
  "cooldownApplies sampleProfessor1 ''2023-07-10'' DEFAULT_JURY_REQUIREMENTS \<and>
   consecutiveCount (isProfessorAvailable sampleProfessor1 ''2023-07-10''
       DEFAULT_JURY_REQUIREMENTS [exampleProcedure1]) = 0 \<and>
   \<not> cooldownApplies sampleProfessor1 ''2024-03-01'' DEFAULT_JURY_REQUIREMENTS \<and>
   consecutiveCount (isProfessorAvailable sampleProfessor1 ''2024-03-01''
       DEFAULT_JURY_REQUIREMENTS [exampleProcedure1])
     = calculateConsecutiveParticipations sampleProfessor1 [exampleProcedure1]"
proof -
  have c1: "cooldownApplies sampleProfessor1 ''2023-07-10'' DEFAULT_JURY_REQUIREMENTS"
    by code_simp
  have c2: "\<not> cooldownApplies sampleProfessor1 ''2024-03-01'' DEFAULT_JURY_REQUIREMENTS"
    by code_simp
  show ?thesis
    using c1 c2
      isProfessorAvailable_consecutiveCount
        [of sampleProfessor1 "''2023-07-10''" DEFAULT_JURY_REQUIREMENTS "[exampleProcedure1]",
         unfolded Let_def]
      isProfessorAvailable_consecutiveCount
        [of sampleProfessor1 "''2024-03-01''" DEFAULT_JURY_REQUIREMENTS "[exampleProcedure1]",
         unfolded Let_def]
    by blast
qed

section \<open>Unparseable dates\<close>


lemma cooldownApplies_unparseable:
  assumes "newDate t = NaN \<or> (\<exists>l. lastDate prof = Some l \<and> newDate l = NaN)"
  shows "\<not> cooldownApplies prof t r"
  using assms
  by (cases "lastDate prof") (auto simp: cooldownApplies_def daysBetween_NaN)

lemma eligiblePool_unparseable:
  assumes "newDate t = NaN"
  shows "eligiblePool profs procs t r =
     filter (\<lambda>p. calculateConsecutiveParticipations p procs < maxConsecutiveParticipations r) profs"
proof -
  have "isAvailable (isProfessorAvailable p t r procs)
      \<longleftrightarrow> calculateConsecutiveParticipations p procs < maxConsecutiveParticipations r" for p
    using cooldownApplies_unparseable [of t p r] assms
    by (simp add: isProfessorAvailable_no_cooldown)
  then show ?thesis by (simp add: eligiblePool_def)
qed

text \<open>
  Claim C10. When the target date or the professor's last date does not parse,
  \<^verbatim>\<open>daysBetween\<close> is \<^verbatim>\<open>NaN\<close>, the comparison with the minimum is false, and
  \<^verbatim>\<open>isProfessorAvailable\<close> returns the result of the streak check: available exactly
  when the streak is below the cap. With an unparseable target date
  \<^verbatim>\<open>createJuryComposition\<close> selects from the professors whose streak is below the
  cap. Both functions return a value on every input.
\<close>

theorem unparseable_date_skips_cooldown:
  assumes "newDate t = NaN \<or> (\<exists>l. lastDate prof = Some l \<and> newDate l = NaN)"
  shows "(\<forall>l. lastDate prof = Some l \<longrightarrow>
            daysBetween l t = NaN \<and>
            \<not> js_lt (daysBetween l t) (Num (minDaysBetweenParticipations r))) \<and>
         consecutiveCount (isProfessorAvailable prof t r procs)
           = calculateConsecutiveParticipations prof procs \<and>
         isAvailable (isProfessorAvailable prof t r procs)
           = (calculateConsecutiveParticipations prof procs < maxConsecutiveParticipations r) \<and>
         (isAvailable (isProfessorAvailable prof t r procs) \<longrightarrow>
            reason (isProfessorAvailable prof t r procs) = None) \<and>
         (\<not> isAvailable (isProfessorAvailable prof t r procs) \<longrightarrow>
            reason (isProfessorAvailable prof t r procs)
              = Some (''Maximum consecutive participations reached ('' @
                     show_int (calculateConsecutiveParticipations prof procs) @ ''/'' @
                     show_int (maxConsecutiveParticipations r) @ '')'')) \<and>
         (newDate t = NaN \<longrightarrow>
            professors (createJuryComposition profs procs t r home)
              = slice0 (sortProfessors
                  (filter (\<lambda>p. title p = Profesor)
                    (filter (\<lambda>p. calculateConsecutiveParticipations p procs
                                    < maxConsecutiveParticipations r) profs))
                  Distance True) (professorCount r) \<and>
            associateProfessors (createJuryComposition profs procs t r home)
              = slice0 (sortProfessors
                  (filter (\<lambda>p. title p = Docent)
                    (filter (\<lambda>p. calculateConsecutiveParticipations p procs
                                    < maxConsecutiveParticipations r) profs))
                  Distance True) (associateProfessorCount r))"
proof -
  have nc: "\<not> cooldownApplies prof t r"
    using assms by (rule cooldownApplies_unparseable)
  have gap: "daysBetween l t = NaN \<and>
       \<not> js_lt (daysBetween l t) (Num (minDaysBetweenParticipations r))"
    if "lastDate prof = Some l" for l
  proof -
    have "newDate l = NaN \<or> newDate t = NaN" using assms that by auto
    then have "daysBetween l t = NaN" by (rule daysBetween_NaN)
    then show ?thesis by simp
  qed
  have res: "isProfessorAvailable prof t r procs =
     (if calculateConsecutiveParticipations prof procs \<ge> maxConsecutiveParticipations r then
        \<lparr>professor = prof, isAvailable = False,
         reason = Some (''Maximum consecutive participations reached ('' @
                     show_int (calculateConsecutiveParticipations prof procs) @ ''/'' @
                     show_int (maxConsecutiveParticipations r) @ '')''),
         lastParticipationDate = lastDate prof,
         consecutiveCount = calculateConsecutiveParticipations prof procs\<rparr>
      else
        \<lparr>professor = prof, isAvailable = True, reason = None,
         lastParticipationDate = lastDate prof,
         consecutiveCount = calculateConsecutiveParticipations prof procs\<rparr>)"
    using nc by (rule isProfessorAvailable_no_cooldown)
  have cc: "consecutiveCount (isProfessorAvailable prof t r procs)
           = calculateConsecutiveParticipations prof procs"
    by (simp add: res)
  have av: "isAvailable (isProfessorAvailable prof t r procs)
           = (calculateConsecutiveParticipations prof procs < maxConsecutiveParticipations r)"
    by (simp add: res not_le)
  have r1: "reason (isProfessorAvailable prof t r procs) = None"
    if "isAvailable (isProfessorAvailable prof t r procs)"
    using that by (simp add: res split: if_splits)
  have r2: "reason (isProfessorAvailable prof t r procs)
              = Some (''Maximum consecutive participations reached ('' @
                     show_int (calculateConsecutiveParticipations prof procs) @ ''/'' @
                     show_int (maxConsecutiveParticipations r) @ '')'')"
    if "\<not> isAvailable (isProfessorAvailable prof t r procs)"
    using that by (simp add: res split: if_splits)
  have comp: "professors (createJuryComposition profs procs t r home)
              = slice0 (sortProfessors
                  (filter (\<lambda>p. title p = Profesor)
                    (filter (\<lambda>p. calculateConsecutiveParticipations p procs
                                    < maxConsecutiveParticipations r) profs))
                  Distance True) (professorCount r) \<and>
            associateProfessors (createJuryComposition profs procs t r home)
              = slice0 (sortProfessors
                  (filter (\<lambda>p. title p = Docent)
                    (filter (\<lambda>p. calculateConsecutiveParticipations p procs
                                    < maxConsecutiveParticipations r) profs))
                  Distance True) (associateProfessorCount r)"
    if "newDate t = NaN"
    unfolding professors_createJuryComposition associateProfessors_createJuryComposition
      eligiblePool_unparseable [OF that]
    by simp
  show ?thesis
    using gap cc av r1 r2 comp by blast
qed

theorem unparseable_date_skips_cooldown_witness:
  "newDate ''not a date'' = NaN \<and>
   lastDate sampleProfessor1 = Some ''2023-06-20'' \<and>
   daysBetween ''2023-06-20'' ''not a date'' = NaN \<and>
   isAvailable (isProfessorAvailable sampleProfessor1 ''not a date'' DEFAULT_JURY_REQUIREMENTS
       [exampleProcedure1]) \<and>
   reason (isProfessorAvailable sampleProfessor1 ''not a date'' DEFAULT_JURY_REQUIREMENTS
       [exampleProcedure1]) = None \<and>
   consecutiveCount (isProfessorAvailable sampleProfessor1 ''not a date'' DEFAULT_JURY_REQUIREMENTS
       [exampleProcedure1]) = 1 \<and>
   \<not> isAvailable (isProfessorAvailable sampleProfessor1 ''not a date'' DEFAULT_JURY_REQUIREMENTS
       [sampleProcedure1, sampleProcedure2, sampleProcedure3]) \<and>
   reason (isProfessorAvailable sampleProfessor1 ''not a date'' DEFAULT_JURY_REQUIREMENTS
       [sampleProcedure1, sampleProcedure2, sampleProcedure3])
     = Some ''Maximum consecutive participations reached (3/3)'' \<and>
   professors (createJuryComposition [sampleProfessor1, sampleProfessor2] [exampleProcedure1]
       ''not a date'' DEFAULT_JURY_REQUIREMENTS ''Sofia University'') = [sampleProfessor1]"
proof -
  have bad: "newDate ''not a date'' = NaN"
    by code_simp
  have l1: "lastDate sampleProfessor1 = Some ''2023-06-20''"
    by (simp add: sampleProfessor1_def)
  have mx: "maxConsecutiveParticipations DEFAULT_JURY_REQUIREMENTS = 3"
    by (simp add: DEFAULT_JURY_REQUIREMENTS_def)
  have s1: "calculateConsecutiveParticipations sampleProfessor1 [exampleProcedure1] = 1"
    by code_simp
  have s2: "calculateConsecutiveParticipations sampleProfessor2 [exampleProcedure1] = 1"
    by code_simp
  have s3: "calculateConsecutiveParticipations sampleProfessor1
       [sampleProcedure1, sampleProcedure2, sampleProcedure3] = 3"
    by code_simp
  have n3: "show_int 3 = ''3''"
    by (simp add: show_int_def show_nat.simps digit_char_def)
  have ti: "title sampleProfessor1 = Profesor" "title sampleProfessor2 = Docent"
    by (simp_all add: sampleProfessor1_def sampleProfessor2_def)
  have sl: "slice0 (sortProfessors [sampleProfessor1] Distance True)
      (professorCount DEFAULT_JURY_REQUIREMENTS) = [sampleProfessor1]"
    by (simp add: slice0_def sortProfessors_def DEFAULT_JURY_REQUIREMENTS_def)
  note a = unparseable_date_skips_cooldown
      [of "''not a date''" sampleProfessor1 DEFAULT_JURY_REQUIREMENTS "[exampleProcedure1]"
          "[sampleProfessor1, sampleProfessor2]" "''Sofia University''",
       unfolded s1 mx, OF disjI1 [OF bad]]
  note b = unparseable_date_skips_cooldown
      [of "''not a date''" sampleProfessor1 DEFAULT_JURY_REQUIREMENTS
          "[sampleProcedure1, sampleProcedure2, sampleProcedure3]" "[]" "''Sofia University''",
       unfolded s3 mx n3, OF disjI1 [OF bad]]
  have A: "daysBetween ''2023-06-20'' ''not a date'' = NaN"
    using a l1 by blast
  have B: "isAvailable (isProfessorAvailable sampleProfessor1 ''not a date'' DEFAULT_JURY_REQUIREMENTS
       [exampleProcedure1])"
    using a by simp
  have C: "reason (isProfessorAvailable sampleProfessor1 ''not a date'' DEFAULT_JURY_REQUIREMENTS
       [exampleProcedure1]) = None"
    using a B by blast
  have D: "consecutiveCount (isProfessorAvailable sampleProfessor1 ''not a date''
       DEFAULT_JURY_REQUIREMENTS [exampleProcedure1]) = 1"
    using a by blast
  have E: "\<not> isAvailable (isProfessorAvailable sampleProfessor1 ''not a date''
       DEFAULT_JURY_REQUIREMENTS [sampleProcedure1, sampleProcedure2, sampleProcedure3])"
    using b by simp
  have F: "reason (isProfessorAvailable sampleProfessor1 ''not a date'' DEFAULT_JURY_REQUIREMENTS
       [sampleProcedure1, sampleProcedure2, sampleProcedure3])
     = Some ''Maximum consecutive participations reached (3/3)''"
    using b E by simp
  have G: "professors (createJuryComposition [sampleProfessor1, sampleProfessor2]
       [exampleProcedure1] ''not a date'' DEFAULT_JURY_REQUIREMENTS ''Sofia University'')
     = [sampleProfessor1]"
    using a bad by (simp add: s1 s2 mx ti sl)
  show ?thesis
    using bad l1 A B C D E F G by blast
qed

section \<open>Day differences\<close>

lemma ceil_div_bounds:
  fixes z d :: int
  assumes d: "0 < d"
  shows "(- ((- z) div d) - 1) * d < z" and "z \<le> - ((- z) div d) * d"
proof -
  define q where "q = (- z) div d"
  define r where "r = (- z) mod d"
  have e: "q * d + r = - z" by (simp add: q_def r_def)
  have r: "0 \<le> r" "r < d" using d by (simp_all add: r_def)
  show "(- ((- z) div d) - 1) * d < z"
    using e r unfolding q_def [symmetric] by (simp add: algebra_simps)
  show "z \<le> - ((- z) div d) * d"
    using e r unfolding q_def [symmetric] by (simp add: algebra_simps)
qed


lemma ceil_div_ceiling:
  fixes z d :: int
  shows "- ((- z) div d) = \<lceil>real_of_int z / real_of_int d\<rceil>"
  by (simp add: ceiling_divide_eq_div)

text \<open>
  Claim C5 says that \<^verbatim>\<open>daysBetween\<close> fails with an \<open>InvalidDate\<close> error when an
  input does not parse. The function has no failure path: for the unparseable string
  "not a date" it returns the value \<^verbatim>\<open>NaN\<close>.
\<close>

theorem daysBetween_invalid_counterexample:
  "newDate ''not a date'' = NaN \<and> daysBetween ''not a date'' ''2023-07-10'' = NaN"
  by code_simp

text \<open>
  Claim C5, amended. \<^verbatim>\<open>daysBetween\<close> returns \<^verbatim>\<open>NaN\<close> when either input does
  not parse. When both parse, it returns the absolute difference of the two time values
  in days, rounded up to a whole number: half a day counts as one day. When the
  difference is a whole number of days, as it is for two date-only inputs, the result is
  exactly that number.
\<close>

theorem daysBetween_value:
  "(newDate a = NaN \<or> newDate b = NaN \<longrightarrow> daysBetween a b = NaN) \<and>
   (\<forall>x y. newDate a = Num x \<and> newDate b = Num y \<longrightarrow>
      daysBetween a b = Num \<lceil>real_of_int \<bar>y - x\<bar> / real_of_int msPerDay\<rceil> \<and>
      (msPerDay dvd y - x \<longrightarrow> daysBetween a b = Num (\<bar>y - x\<bar> div msPerDay)))"
proof -
  have "daysBetween a b = Num \<lceil>real_of_int \<bar>y - x\<bar> / real_of_int msPerDay\<rceil> \<and>
      (msPerDay dvd y - x \<longrightarrow> daysBetween a b = Num (\<bar>y - x\<bar> div msPerDay))"
    if a: "newDate a = Num x" and b: "newDate b = Num y" for x y
  proof -
    have d: "daysBetween a b = Num (- ((- \<bar>y - x\<bar>) div 86400000))"
      using a b by (rule daysBetween_Num)
    have m: "msPerDay = 86400000"
      by (simp add: msPerDay_def)
    have c: "daysBetween a b = Num \<lceil>real_of_int \<bar>y - x\<bar> / real_of_int msPerDay\<rceil>"
      unfolding d m ceil_div_ceiling ..
    have e: "daysBetween a b = Num (\<bar>y - x\<bar> div msPerDay)" if "msPerDay dvd y - x"
    proof -
      have "(86400000::int) dvd \<bar>y - x\<bar>"
        using that by (simp add: m)
      then have "- ((- \<bar>y - x\<bar>) div 86400000) = \<bar>y - x\<bar> div 86400000"
        by (metis dvd_neg_div minus_minus)
      then show ?thesis unfolding d m by simp
    qed
    show ?thesis using c e by blast
  qed
  then show ?thesis
    using daysBetween_NaN [of a b] by blast
qed

theorem daysBetween_value_witness:
  "newDate ''2023-06-20T00:00:00Z'' = Num 1687219200000 \<and>
   newDate ''2023-06-20T12:00:00Z'' = Num 1687262400000 \<and>
   daysBetween ''2023-06-20T00:00:00Z'' ''2023-06-20T12:00:00Z'' = Num 1 \<and>
   newDate ''2023-06-20'' = Num 1687219200000 \<and>
   newDate ''2023-07-10'' = Num 1688947200000 \<and>
   msPerDay dvd 1688947200000 - 1687219200000 \<and>
   daysBetween ''2023-06-20'' ''2023-07-10'' = Num 20 \<and>
   newDate ''not a date'' = NaN \<and> daysBetween ''not a date'' ''2023-07-10'' = NaN"
proof -
  have a0: "newDate ''2023-06-20T00:00:00Z'' = Num 1687219200000"
    by code_simp
  have a1: "newDate ''2023-06-20T12:00:00Z'' = Num 1687262400000"
    by code_simp
  have a: "newDate ''2023-06-20'' = Num 1687219200000"
    by code_simp
  have b: "newDate ''2023-07-10'' = Num 1688947200000"
    by code_simp
  have c: "newDate ''not a date'' = NaN"
    by code_simp
  have dv: "msPerDay dvd 1688947200000 - 1687219200000"
    by (simp add: msPerDay_def)
  note h = daysBetween_value [of "''2023-06-20T00:00:00Z''" "''2023-06-20T12:00:00Z''"]
  note v = daysBetween_value [of "''2023-06-20''" "''2023-07-10''"]
  note w = daysBetween_value [of "''not a date''" "''2023-07-10''"]
  have "daysBetween ''2023-06-20T00:00:00Z'' ''2023-06-20T12:00:00Z''
      = Num \<lceil>real_of_int \<bar>1687262400000 - 1687219200000\<bar> / real_of_int msPerDay\<rceil>"
    using h a0 a1 by blast
  moreover have "\<lceil>real_of_int \<bar>1687262400000 - 1687219200000\<bar> / real_of_int msPerDay\<rceil> = 1"
    unfolding msPerDay_def ceil_div_ceiling [symmetric] by simp
  ultimately have half: "daysBetween ''2023-06-20T00:00:00Z'' ''2023-06-20T12:00:00Z'' = Num 1"
    by simp
  have "daysBetween ''2023-06-20'' ''2023-07-10''
      = Num (\<bar>1688947200000 - 1687219200000\<bar> div msPerDay)"
    using v a b dv by blast
  then have d: "daysBetween ''2023-06-20'' ''2023-07-10'' = Num 20"
    by (simp add: msPerDay_def)
  have f: "daysBetween ''not a date'' ''2023-07-10'' = NaN" using w c by blast
  show ?thesis using a0 a1 half a b dv d c f by blast
qed

section \<open>Streak\<close>












section \<open>Workload report\<close>

lemma js_strict_eq_Num: "js_strict_eq x (Num y) \<longleftrightarrow> x = Num y"
  by (cases x) simp_all

lemma totalParticipations_workload:
  "totalParticipations (calculateProfessorWorkload localTZA prof procedures year)
     = length (getProfessorParticipationHistory prof procedures)"
  by (simp add: calculateProfessorWorkload_def Let_def)

lemma participationsThisYear_workload:
  "participationsThisYear (calculateProfessorWorkload localTZA prof procedures year) =
     (case year of
        None \<Rightarrow> length (getProfessorParticipationHistory prof procedures)
      | Some y \<Rightarrow>
          if y = 0 then length (getProfessorParticipationHistory prof procedures)
          else length (filter (\<lambda>proc. getFullYear localTZA (newDate (date proc)) = Num y)
                 (getProfessorParticipationHistory prof procedures)))"
  by (simp add: calculateProfessorWorkload_def Let_def js_strict_eq_Num split: option.split)

lemma average_workload_short:
  "length (getProfessorParticipationHistory prof procedures) < 2 \<Longrightarrow>
     averageDaysBetweenParticipations (calculateProfessorWorkload localTZA prof procedures year)
       = Num 0"
  by (simp add: calculateProfessorWorkload_def Let_def)

lemma lastParticipationDate_workload:
  "lastParticipationDate' (calculateProfessorWorkload localTZA prof procedures year) =
     (if getProfessorParticipationHistory prof procedures = [] then None
      else Some (date (last (getProfessorParticipationHistory prof procedures))))"
  by (simp add: calculateProfessorWorkload_def Let_def last_conv_nth)

text \<open>
  Claim C9. \<^verbatim>\<open>calculateProfessorWorkload\<close> is to report, when a year is supplied,
  the number of history entries in that year. The code does so for every year but 0: the
  test \<^verbatim>\<open>if (year)\<close> is false for the number 0, so a supplied year 0 is taken for an
  absent year. For the first sample professor, whose history is the one participation of
  2023-06-20, and the year 0, the code reports 1 participation in the year, the total,
  where the claim asks for 0. This holds in every time zone of the host.
\<close>

theorem calculateProfessorWorkload_year_zero:
  "map date (getProfessorParticipationHistory sampleProfessor1 [exampleProcedure1])
     = [''2023-06-20''] \<and>
   totalParticipations
     (calculateProfessorWorkload localTZA sampleProfessor1 [exampleProcedure1] (Some 0)) = 1 \<and>
   participationsThisYear
     (calculateProfessorWorkload localTZA sampleProfessor1 [exampleProcedure1] (Some 0)) = 1"
proof -
  have h: "getProfessorParticipationHistory sampleProfessor1 [exampleProcedure1]
      = [exampleProcedure1]"
    by code_simp
  have d: "date exampleProcedure1 = ''2023-06-20''"
    by (simp add: exampleProcedure1_def)
  show ?thesis
    by (simp add: totalParticipations_workload participationsThisYear_workload h d)
qed

section \<open>Shortfall errors\<close>


lemma errors_createJuryComposition:
  "errors (createJuryComposition profs procs t r home) =
     (if int (length (filter (\<lambda>p. title p = Profesor) (eligiblePool profs procs t r)))
           < professorCount r
      then [''Insufficient professors available: '' @
            show_nat (length (filter (\<lambda>p. title p = Profesor) (eligiblePool profs procs t r))) @
            ''/'' @ show_int (professorCount r)]
      else []) @
     (if int (length (filter (\<lambda>p. title p = Docent) (eligiblePool profs procs t r)))
           < associateProfessorCount r
      then [''Insufficient associate professors available: '' @
            show_nat (length (filter (\<lambda>p. title p = Docent) (eligiblePool profs procs t r))) @
            ''/'' @ show_int (associateProfessorCount r)]
      else [])"
  unfolding createJuryComposition_def Let_def availableProfessors_eligiblePool
  by simp

lemma length_slice0_less: "int (length (slice0 xs n)) < n \<longleftrightarrow> int (length xs) < n"
  by (auto simp: slice0_def min_def)

lemma length_slice0_short: "int (length xs) < n \<Longrightarrow> slice0 xs n = xs"
  by (simp add: slice0_def)

lemma length_sortProfessors: "length (sortProfessors xs c a) = length xs"
  by (simp add: sortProfessors_def length_js_sort)

lemma show_nat_1: "show_nat (Suc 0) = ''1''"
  by (simp add: show_nat.simps digit_char_def)

lemma show_int_3: "show_int 3 = ''3''"
  by (simp add: show_int_def show_nat.simps digit_char_def)

text \<open>
  Claim C4. For each rank, \<^verbatim>\<open>createJuryComposition\<close> puts an entry in the error list
  exactly when the number of selected members of the rank is below the quota, which is
  the case exactly when the eligible pool of the rank is smaller than the quota; the entry
  gives the size of the pool, which is then the number selected, and the quota. With
  one eligible professor and a quota of 3, one professor is selected and the error list
  contains "Insufficient professors available: 1/3".
\<close>

theorem createJuryComposition_errors:
  "let c = createJuryComposition profs procs t r home;
       profPool = filter (\<lambda>p. title p = Profesor) (eligiblePool profs procs t r);
       assocPool = filter (\<lambda>p. title p = Docent) (eligiblePool profs procs t r);
       e1 = ''Insufficient professors available: '' @ show_nat (length profPool) @
            ''/'' @ show_int (professorCount r);
       e2 = ''Insufficient associate professors available: '' @ show_nat (length assocPool) @
            ''/'' @ show_int (associateProfessorCount r)
   in errors c =
        (if int (length (professors c)) < professorCount r then [e1] else []) @
        (if int (length (associateProfessors c)) < associateProfessorCount r then [e2] else []) \<and>
      (int (length (professors c)) < professorCount r
         \<longleftrightarrow> int (length profPool) < professorCount r) \<and>
      (int (length (associateProfessors c)) < associateProfessorCount r
         \<longleftrightarrow> int (length assocPool) < associateProfessorCount r) \<and>
      (int (length profPool) < professorCount r \<longrightarrow> length (professors c) = length profPool) \<and>
      (int (length assocPool) < associateProfessorCount r \<longrightarrow>
         length (associateProfessors c) = length assocPool) \<and>
      (length profPool = 1 \<and> professorCount r = 3 \<longrightarrow>
         length (professors c) = 1 \<and>
         ''Insufficient professors available: 1/3'' \<in> set (errors c))"
proof -
  let ?c = "createJuryComposition profs procs t r home"
  let ?pp = "filter (\<lambda>p. title p = Profesor) (eligiblePool profs procs t r)"
  let ?ap = "filter (\<lambda>p. title p = Docent) (eligiblePool profs procs t r)"
  let ?e1 = "''Insufficient professors available: '' @ show_nat (length ?pp) @
            ''/'' @ show_int (professorCount r)"
  let ?e2 = "''Insufficient associate professors available: '' @ show_nat (length ?ap) @
            ''/'' @ show_int (associateProfessorCount r)"
  have p: "int (length (professors ?c)) < professorCount r
         \<longleftrightarrow> int (length ?pp) < professorCount r"
    by (simp add: professors_createJuryComposition length_slice0_less length_sortProfessors)
  have a: "int (length (associateProfessors ?c)) < associateProfessorCount r
         \<longleftrightarrow> int (length ?ap) < associateProfessorCount r"
    by (simp add: associateProfessors_createJuryComposition length_slice0_less
          length_sortProfessors)
  have e: "errors ?c =
        (if int (length (professors ?c)) < professorCount r then [?e1] else []) @
        (if int (length (associateProfessors ?c)) < associateProfessorCount r then [?e2] else [])"
    unfolding p a by (rule errors_createJuryComposition)
  have lp: "length (professors ?c) = length ?pp" if "int (length ?pp) < professorCount r"
    using that
    by (simp add: professors_createJuryComposition length_slice0_short length_sortProfessors)
  have la: "length (associateProfessors ?c) = length ?ap"
    if "int (length ?ap) < associateProfessorCount r"
    using that
    by (simp add: associateProfessors_createJuryComposition length_slice0_short
          length_sortProfessors)
  have sc: "length (professors ?c) = 1 \<and>
         ''Insufficient professors available: 1/3'' \<in> set (errors ?c)"
    if "length ?pp = 1 \<and> professorCount r = 3"
  proof -
    have lt: "int (length ?pp) < professorCount r" using that by simp
    have "?e1 = ''Insufficient professors available: 1/3''"
      using that by (simp add: show_nat_1 show_int_3)
    moreover have "?e1 \<in> set (errors ?c)"
      unfolding errors_createJuryComposition using lt by simp
    ultimately show ?thesis using lp [OF lt] that by simp
  qed
  show ?thesis
    unfolding Let_def using e p a lp la sc by blast
qed

theorem createJuryComposition_errors_witness:
  "filter (\<lambda>p. title p = Profesor)
      (eligiblePool [sampleProfessor1, sampleProfessor2] [] ''2024-03-01'' DEFAULT_JURY_REQUIREMENTS)
     = [sampleProfessor1] \<and>
   professorCount DEFAULT_JURY_REQUIREMENTS = 3 \<and>
   length (professors (createJuryComposition [sampleProfessor1, sampleProfessor2] []
      ''2024-03-01'' DEFAULT_JURY_REQUIREMENTS ''Sofia University'')) = 1 \<and>
   errors (createJuryComposition [sampleProfessor1, sampleProfessor2] []
      ''2024-03-01'' DEFAULT_JURY_REQUIREMENTS ''Sofia University'')
     = [''Insufficient professors available: 1/3'',
        ''Insufficient associate professors available: 1/2''] \<and>
   errors (createJuryComposition [sampleProfessor1, sampleProfessor2] [] ''2024-03-01''
      (DEFAULT_JURY_REQUIREMENTS\<lparr>professorCount := 1, associateProfessorCount := 1\<rparr>)
      ''Sofia University'') = []"
proof -
  let ?ps = "[sampleProfessor1, sampleProfessor2]"
  let ?r1 = "DEFAULT_JURY_REQUIREMENTS\<lparr>professorCount := 1, associateProfessorCount := 1\<rparr>"
  have pool: "eligiblePool ?ps [] ''2024-03-01'' DEFAULT_JURY_REQUIREMENTS = ?ps"
    by code_simp
  have pool1: "eligiblePool ?ps [] ''2024-03-01'' ?r1 = ?ps"
    by code_simp
  have ti: "title sampleProfessor1 = Profesor" "title sampleProfessor2 = Docent"
    by (simp_all add: sampleProfessor1_def sampleProfessor2_def)
  have pp: "filter (\<lambda>p. title p = Profesor)
      (eligiblePool ?ps [] ''2024-03-01'' DEFAULT_JURY_REQUIREMENTS) = [sampleProfessor1]"
    by (simp add: pool ti)
  have q: "professorCount DEFAULT_JURY_REQUIREMENTS = 3"
      "associateProfessorCount DEFAULT_JURY_REQUIREMENTS = 2"
      "professorCount ?r1 = 1" "associateProfessorCount ?r1 = 1"
    by (simp_all add: DEFAULT_JURY_REQUIREMENTS_def)
  have n: "show_nat 1 = ''1''" "show_int 3 = ''3''" "show_int 2 = ''2''"
    by (simp_all add: show_int_def show_nat.simps digit_char_def)
  have ap: "filter (\<lambda>p. title p = Docent) ?ps = [sampleProfessor2]"
    and pp': "filter (\<lambda>p. title p = Profesor) ?ps = [sampleProfessor1]"
    by (simp_all add: ti)
  note a = createJuryComposition_errors [of ?ps "[]" "''2024-03-01''" DEFAULT_JURY_REQUIREMENTS
      "''Sofia University''", unfolded Let_def pool pp' ap q]
  note b = createJuryComposition_errors [of ?ps "[]" "''2024-03-01''" ?r1
      "''Sofia University''", unfolded Let_def pool1 pp' ap q]
  note a1 = a [THEN conjunct1]
  note a4 = a [THEN conjunct2, THEN conjunct2, THEN conjunct2, THEN conjunct1]
  note a5 = a [THEN conjunct2, THEN conjunct2, THEN conjunct2, THEN conjunct2, THEN conjunct1]
  note a6 = a [THEN conjunct2, THEN conjunct2, THEN conjunct2, THEN conjunct2, THEN conjunct2]
  note b1 = b [THEN conjunct1]
  note b2 = b [THEN conjunct2, THEN conjunct1]
  note b3 = b [THEN conjunct2, THEN conjunct2, THEN conjunct1]
  have A: "length (professors (createJuryComposition ?ps [] ''2024-03-01''
      DEFAULT_JURY_REQUIREMENTS ''Sofia University'')) = 1"
    using a4 a6 by simp
  have A2: "length (associateProfessors (createJuryComposition ?ps [] ''2024-03-01''
      DEFAULT_JURY_REQUIREMENTS ''Sofia University'')) = 1"
    using a5 by simp
  have B: "errors (createJuryComposition ?ps [] ''2024-03-01''
      DEFAULT_JURY_REQUIREMENTS ''Sofia University'')
     = [''Insufficient professors available: 1/3'',
        ''Insufficient associate professors available: 1/2'']"
    unfolding a1 A A2 by (simp add: n show_nat_1)
  have C: "errors (createJuryComposition ?ps [] ''2024-03-01'' ?r1 ''Sofia University'') = []"
    unfolding b1 using b2 b3 by simp
  show ?thesis
    using pp q(1) A B C by blast
qed

section \<open>Stability of the candidate sort\<close>

lemma sortProfessors_directed:
  "sortProfessors profs criteria ascending = js_sort (directed criteria ascending) profs"
proof -
  have "(\<lambda>a b. if ascending then comparison criteria a b else js_neg (comparison criteria a b))
      = directed criteria ascending"
    by (intro ext) (simp add: directed_def)
  then show ?thesis by (simp add: sortProfessors_def)
qed

lemma js_real_eq_iff: "js_real x = js_real y \<longleftrightarrow> x = y"
  by (cases x; cases y) simp_all

lemma localeCompare_same: "localeCompare s s = 0"
  by (simp add: localeCompare_def)

lemma directed_tie:
  assumes "sortKey criteria a = sortKey criteria b"
  shows "\<not> js_gt (directed criteria ascending a b) (Num 0)"
proof (cases criteria)
  case Distance
  then show ?thesis using assms by (simp add: directed_def)
next
  case LastParticipation
  then have "lastDateTime a = lastDateTime b"
    using assms by (simp add: js_real_eq_iff)
  then show ?thesis
    using LastParticipation by (cases "lastDateTime b") (simp_all add: directed_def)
next
  case ParticipationCount
  then show ?thesis using assms by (simp add: directed_def)
next
  case ScienceRating
  then show ?thesis using assms by (simp add: directed_def)
next
  case Name
  then show ?thesis using assms by (simp add: directed_def localeCompare_same)
qed

lemma sorted_wrt_sort_insert:
  assumes tr: "\<And>a b c. R a b \<Longrightarrow> R b c \<Longrightarrow> R a c"
  shows "sorted_wrt R xs \<Longrightarrow>
     (\<And>b. b \<in> set xs \<Longrightarrow> if js_gt (cmp x b) (Num 0) then R b x else R x b) \<Longrightarrow>
     sorted_wrt R (sort_insert cmp x xs)"
proof (induction xs)
  case Nil
  show ?case by simp
next
  case (Cons y ys)
  have s: "set (sort_insert cmp x ys) = insert x (set ys)"
    using mset_sort_insert [of cmp x ys] by (metis set_mset_add_mset_insert set_mset_mset)
  show ?case
  proof (cases "js_gt (cmp x y) (Num 0)")
    case True
    then have "R y x" using Cons.prems(2) [of y] by simp
    moreover have "sorted_wrt R (sort_insert cmp x ys)"
      using Cons.IH Cons.prems by simp
    ultimately show ?thesis using Cons.prems(1) True s by auto
  next
    case False
    then have xy: "R x y" using Cons.prems(2) [of y] by simp
    have "R x z" if "z \<in> set ys" for z
      using xy Cons.prems(1) that tr by auto
    then show ?thesis using Cons.prems(1) False xy by auto
  qed
qed

lemma sorted_wrt_js_sort:
  assumes tr: "\<And>a b c. R a b \<Longrightarrow> R b c \<Longrightarrow> R a c"
    and gt: "\<And>a b. a \<in> set xs \<Longrightarrow> b \<in> set xs \<Longrightarrow>
                 if js_gt (cmp a b) (Num 0) then R b a else R a b"
  shows "sorted_wrt R (js_sort cmp xs)"
  using gt
proof (induction xs)
  case Nil
  show ?case by simp
next
  case (Cons x xs)
  have "sorted_wrt R (js_sort cmp xs)"
    using Cons.IH Cons.prems by simp
  moreover have "if js_gt (cmp x b) (Num 0) then R b x else R x b"
    if "b \<in> set (js_sort cmp xs)" for b
    using that Cons.prems [of x b] by (simp add: set_js_sort)
  ultimately have "sorted_wrt R (sort_insert cmp x (js_sort cmp xs))"
    using tr by (rule sorted_wrt_sort_insert [rotated]) 
  then show ?case by simp
qed

lemma precedes_cases:
  "precedes asc x y \<Longrightarrow>
     \<exists>a b. x = NumKey (Num a) \<and> y = NumKey (Num b) \<and> (if asc then a \<le> b else b \<le> a)"
  by (induction asc x y rule: precedes.induct) simp_all

lemma precedes_trans:
  assumes "precedes asc x y" and "precedes asc y z"
  shows "precedes asc x z"
  using precedes_cases [OF assms(1)] precedes_cases [OF assms(2)]
  by (cases asc) auto

lemma directed_order:
  assumes a: "sortKey criteria a \<noteq> NumKey NaN" and b: "sortKey criteria b \<noteq> NumKey NaN"
    and n: "criteria \<noteq> Name"
  shows "if js_gt (directed criteria ascending a b) (Num 0)
         then precedes ascending (sortKey criteria b) (sortKey criteria a)
         else precedes ascending (sortKey criteria a) (sortKey criteria b)"
proof (cases criteria)
  case Distance
  then show ?thesis by (auto simp: directed_def)
next
  case LastParticipation
  obtain x y where "lastDateTime a = Num x" "lastDateTime b = Num y"
    using a b LastParticipation
    by (cases "lastDateTime a"; cases "lastDateTime b") simp_all
  then show ?thesis using LastParticipation by (auto simp: directed_def)
next
  case ParticipationCount
  then show ?thesis by (auto simp: directed_def)
next
  case ScienceRating
  then show ?thesis by (auto simp: directed_def)
next
  case Name
  then show ?thesis using n by simp
qed

text \<open>
  Claim C6. Whenever no sort key is \<^verbatim>\<open>NaN\<close> (every last date that is present
  parses), \<^verbatim>\<open>sortProfessors\<close> returns a permutation of its input in which, for every
  criterion and in both directions, the professors of each tie group keep their input
  order: the descending sort negates the comparator and does not reverse the list. For
  the numeric criteria the result is ordered by the key in the chosen direction.
\<close>

theorem sortProfessors_stable:
  assumes "\<forall>p\<in>set profs. sortKey criteria p \<noteq> NumKey NaN"
  shows "mset (sortProfessors profs criteria ascending) = mset profs \<and>
   (\<forall>k. filter (\<lambda>p. sortKey criteria p = k) (sortProfessors profs criteria ascending)
        = filter (\<lambda>p. sortKey criteria p = k) profs) \<and>
   (criteria \<noteq> Name \<longrightarrow>
      sorted_wrt (\<lambda>a b. precedes ascending (sortKey criteria a) (sortKey criteria b))
        (sortProfessors profs criteria ascending))"
proof -
  have m: "mset (sortProfessors profs criteria ascending) = mset profs"
    by (simp add: sortProfessors_directed mset_js_sort)
  have st: "filter (\<lambda>p. sortKey criteria p = k) (sortProfessors profs criteria ascending)
        = filter (\<lambda>p. sortKey criteria p = k) profs" for k
    unfolding sortProfessors_directed
    by (rule js_sort_stable) (rule directed_tie)
  have so: "sorted_wrt (\<lambda>a b. precedes ascending (sortKey criteria a) (sortKey criteria b))
        (sortProfessors profs criteria ascending)"
    if n: "criteria \<noteq> Name"
    unfolding sortProfessors_directed
  proof (rule sorted_wrt_js_sort)
    fix a b c
    assume "precedes ascending (sortKey criteria a) (sortKey criteria b)"
      and "precedes ascending (sortKey criteria b) (sortKey criteria c)"
    then show "precedes ascending (sortKey criteria a) (sortKey criteria c)"
      by (rule precedes_trans)
  next
    fix a b
    assume "a \<in> set profs" and "b \<in> set profs"
    then have "sortKey criteria a \<noteq> NumKey NaN" and "sortKey criteria b \<noteq> NumKey NaN"
      using assms by simp_all
    then show "if js_gt (directed criteria ascending a b) (Num 0)
         then precedes ascending (sortKey criteria b) (sortKey criteria a)
         else precedes ascending (sortKey criteria a) (sortKey criteria b)"
      using n by (rule directed_order)
  qed
  show ?thesis using m st so by blast
qed

theorem sortProfessors_stable_witness:
  "sortKey Distance sampleProfessor1 \<noteq> NumKey NaN \<and>
   sortKey Distance sampleProfessor2 \<noteq> NumKey NaN \<and>
   sortKey Distance sampleProfessor6 \<noteq> NumKey NaN \<and>
   sortKey Distance sampleProfessor1 = sortKey Distance sampleProfessor6 \<and>
   Distance \<noteq> Name \<and>
   sortProfessors [sampleProfessor1, sampleProfessor2, sampleProfessor6] Distance True
     = [sampleProfessor1, sampleProfessor6, sampleProfessor2] \<and>
   sortProfessors [sampleProfessor1, sampleProfessor2, sampleProfessor6] Distance False
     = [sampleProfessor2, sampleProfessor1, sampleProfessor6] \<and>
   sorted_wrt (\<lambda>a b. precedes False (sortKey Distance a) (sortKey Distance b))
     (sortProfessors [sampleProfessor1, sampleProfessor2, sampleProfessor6] Distance False) \<and>
   filter (\<lambda>p. sortKey Distance p = NumKey (Num 0))
     (sortProfessors [sampleProfessor1, sampleProfessor2, sampleProfessor6] Distance False)
     = [sampleProfessor1, sampleProfessor6]"
proof -
  let ?ps = "[sampleProfessor1, sampleProfessor2, sampleProfessor6]"
  have k: "km sampleProfessor1 = 0" "km sampleProfessor2 = 120" "km sampleProfessor6 = 0"
    by (simp_all add: sampleProfessor1_def sampleProfessor2_def sampleProfessor6_def)
  have v: "\<forall>p\<in>set ?ps. sortKey Distance p \<noteq> NumKey NaN"
    by simp
  have e: "sortKey Distance sampleProfessor1 = sortKey Distance sampleProfessor6"
    by (simp add: k)
  have up: "sortProfessors ?ps Distance True = [sampleProfessor1, sampleProfessor6, sampleProfessor2]"
    by (simp add: sortProfessors_def k)
  have down: "sortProfessors ?ps Distance False = [sampleProfessor2, sampleProfessor1, sampleProfessor6]"
    by (simp add: sortProfessors_def k)
  note t = sortProfessors_stable [OF v, of False]
  have s: "sorted_wrt (\<lambda>a b. precedes False (sortKey Distance a) (sortKey Distance b))
     (sortProfessors ?ps Distance False)"
    using t by blast
  have "filter (\<lambda>p. sortKey Distance p = NumKey (Num 0)) (sortProfessors ?ps Distance False)
      = filter (\<lambda>p. sortKey Distance p = NumKey (Num 0)) ?ps"
    using t by blast
  then have f: "filter (\<lambda>p. sortKey Distance p = NumKey (Num 0))
      (sortProfessors ?ps Distance False) = [sampleProfessor1, sampleProfessor6]"
    by (simp add: k)
  have v': "sortKey Distance sampleProfessor1 \<noteq> NumKey NaN \<and>
      sortKey Distance sampleProfessor2 \<noteq> NumKey NaN \<and>
      sortKey Distance sampleProfessor6 \<noteq> NumKey NaN"
    by simp
  have n: "Distance \<noteq> Name" by simp
  show ?thesis using v' e n up down s f by blast
qed

section \<open>The participation counter is not read\<close>

lemma participates_eraseCount: "participates (eraseCount p) = participates p"
  by (intro ext) (simp add: participates_def eraseCount_def)

lemma streak_eraseCount:
  "calculateConsecutiveParticipations (eraseCount p) procs
     = calculateConsecutiveParticipations p procs"
  by (simp add: calculateConsecutiveParticipations_def participates_eraseCount)

lemma lastDate_eraseCount: "lastDate (eraseCount p) = lastDate p"
  by (simp add: eraseCount_def)

lemma isProfessorAvailable_eraseCount:
  "isProfessorAvailable (eraseCount p) t r procs
     = (isProfessorAvailable p t r procs)\<lparr>professor := eraseCount p\<rparr>"
  by (cases "lastDate p")
     (simp_all add: isProfessorAvailable_def Let_def streak_eraseCount lastDate_eraseCount)

lemma eligiblePool_eraseCount:
  "eligiblePool (map eraseCount profs) procs t r = map eraseCount (eligiblePool profs procs t r)"
  by (simp add: eligiblePool_def filter_map comp_def isProfessorAvailable_eraseCount)

lemma filter_title_eraseCount:
  "filter (\<lambda>p. title p = ti) (map eraseCount xs) = map eraseCount (filter (\<lambda>p. title p = ti) xs)"
  by (simp add: filter_map comp_def eraseCount_def)

lemma filter_university_eraseCount:
  "filter (\<lambda>p. university p = u) (map eraseCount xs)
     = map eraseCount (filter (\<lambda>p. university p = u) xs)"
  "filter (\<lambda>p. university p \<noteq> u) (map eraseCount xs)
     = map eraseCount (filter (\<lambda>p. university p \<noteq> u) xs)"
  by (simp_all add: filter_map comp_def eraseCount_def)

lemma sortProfessors_Distance_eraseCount:
  "sortProfessors (map eraseCount xs) Distance True
     = map eraseCount (sortProfessors xs Distance True)"
  unfolding sortProfessors_directed
  by (rule js_sort_map) (simp add: directed_def eraseCount_def)

lemma slice0_map: "slice0 (map f xs) n = map f (slice0 xs n)"
  by (simp add: slice0_def take_map)

lemma professors_eraseCount:
  "professors (createJuryComposition (map eraseCount profs) procs t r home)
     = map eraseCount (professors (createJuryComposition profs procs t r home))"
  by (simp add: professors_createJuryComposition eligiblePool_eraseCount
        filter_title_eraseCount sortProfessors_Distance_eraseCount slice0_map)

lemma associateProfessors_eraseCount:
  "associateProfessors (createJuryComposition (map eraseCount profs) procs t r home)
     = map eraseCount (associateProfessors (createJuryComposition profs procs t r home))"
  by (simp add: associateProfessors_createJuryComposition eligiblePool_eraseCount
        filter_title_eraseCount sortProfessors_Distance_eraseCount slice0_map)

lemma allMembers_eraseCount:
  "allMembers (createJuryComposition (map eraseCount profs) procs t r home)
     = map eraseCount (allMembers (createJuryComposition profs procs t r home))"
  by (simp add: allMembers_createJuryComposition professors_eraseCount
        associateProfessors_eraseCount)

lemma internalMembers_eraseCount:
  "internalMembers (createJuryComposition (map eraseCount profs) procs t r home)
     = map eraseCount (internalMembers (createJuryComposition profs procs t r home))"
  by (simp add: internalMembers_createJuryComposition allMembers_eraseCount
        filter_university_eraseCount)

lemma externalMembers_eraseCount:
  "externalMembers (createJuryComposition (map eraseCount profs) procs t r home)
     = map eraseCount (externalMembers (createJuryComposition profs procs t r home))"
  by (simp add: externalMembers_createJuryComposition allMembers_eraseCount
        filter_university_eraseCount)

lemma errors_eraseCount:
  "errors (createJuryComposition (map eraseCount profs) procs t r home)
     = errors (createJuryComposition profs procs t r home)"
  by (simp add: errors_createJuryComposition eligiblePool_eraseCount filter_title_eraseCount)

lemma warnings_createJuryComposition:
  "warnings (createJuryComposition profs procs t r home) =
     (if length (filter (\<lambda>p. km p > real_of_int (maxDistanceForExternal r))
            (externalMembers (createJuryComposition profs procs t r home))) > 0
      then [show_nat (length (filter (\<lambda>p. km p > real_of_int (maxDistanceForExternal r))
            (externalMembers (createJuryComposition profs procs t r home)))) @
            '' external members exceed maximum distance ('' @
            show_int (maxDistanceForExternal r) @ ''km)'']
      else [])"
  unfolding createJuryComposition_def Let_def by simp

lemma warnings_eraseCount:
  "warnings (createJuryComposition (map eraseCount profs) procs t r home)
     = warnings (createJuryComposition profs procs t r home)"
  by (simp add: warnings_createJuryComposition externalMembers_eraseCount filter_map comp_def
        eraseCount_def)

lemma eraseCount_update: "eraseCount (p\<lparr>count' := c\<rparr>) = eraseCount p"
  by (simp add: eraseCount_def)

lemma id_eraseCount: "map id' (map eraseCount xs) = map id' xs"
  by (simp add: comp_def eraseCount_def)

lemma verdict_eraseCount:
  "isAvailable (isProfessorAvailable (eraseCount p) t r procs)
     = isAvailable (isProfessorAvailable p t r procs)"
  "reason (isProfessorAvailable (eraseCount p) t r procs)
     = reason (isProfessorAvailable p t r procs)"
  "consecutiveCount (isProfessorAvailable (eraseCount p) t r procs)
     = consecutiveCount (isProfessorAvailable p t r procs)"
  by (simp_all add: isProfessorAvailable_eraseCount)

text \<open>
  Claim C8. The lifetime participation counter is not read. For a professor with any
  other counter value, \<^verbatim>\<open>isProfessorAvailable\<close> returns the same verdict, reason and
  consecutive count. For two professor lists that differ at most in the counters,
  \<^verbatim>\<open>createJuryComposition\<close> selects members with the same ids at the same positions
  in every member list (the members differ at most in the counter), and returns the same
  errors and warnings.
\<close>

theorem count_noninterference:
  "(let a = isProfessorAvailable prof t r procs;
        b = isProfessorAvailable (prof\<lparr>count' := c\<rparr>) t r procs
    in isAvailable b = isAvailable a \<and> reason b = reason a \<and>
       consecutiveCount b = consecutiveCount a) \<and>
   (map eraseCount profs' = map eraseCount profs \<longrightarrow>
      (let A = createJuryComposition profs procs t r home;
           B = createJuryComposition profs' procs t r home
       in map id' (professors B) = map id' (professors A) \<and>
          map id' (associateProfessors B) = map id' (associateProfessors A) \<and>
          map id' (allMembers B) = map id' (allMembers A) \<and>
          map id' (internalMembers B) = map id' (internalMembers A) \<and>
          map id' (externalMembers B) = map id' (externalMembers A) \<and>
          map eraseCount (allMembers B) = map eraseCount (allMembers A) \<and>
          errors B = errors A \<and> warnings B = warnings A))"
proof -
  let ?a = "isProfessorAvailable prof t r procs"
  let ?b = "isProfessorAvailable (prof\<lparr>count' := c\<rparr>) t r procs"
  have v: "isAvailable ?b = isAvailable ?a \<and> reason ?b = reason ?a \<and>
       consecutiveCount ?b = consecutiveCount ?a"
    using verdict_eraseCount [of "prof\<lparr>count' := c\<rparr>" t r procs]
      verdict_eraseCount [of prof t r procs]
    by (simp add: eraseCount_update)
  let ?A = "createJuryComposition profs procs t r home"
  let ?B = "createJuryComposition profs' procs t r home"
  have comp: "map id' (professors ?B) = map id' (professors ?A) \<and>
          map id' (associateProfessors ?B) = map id' (associateProfessors ?A) \<and>
          map id' (allMembers ?B) = map id' (allMembers ?A) \<and>
          map id' (internalMembers ?B) = map id' (internalMembers ?A) \<and>
          map id' (externalMembers ?B) = map id' (externalMembers ?A) \<and>
          map eraseCount (allMembers ?B) = map eraseCount (allMembers ?A) \<and>
          errors ?B = errors ?A \<and> warnings ?B = warnings ?A"
    if e: "map eraseCount profs' = map eraseCount profs"
  proof -
    have ids: "map id' xs = map id' ys" if "map eraseCount xs = map eraseCount ys" for xs ys
      using that id_eraseCount [of xs] id_eraseCount [of ys] by simp
    have p: "map eraseCount (professors ?B) = map eraseCount (professors ?A)"
      using professors_eraseCount [of profs' procs t r home]
        professors_eraseCount [of profs procs t r home] e by simp
    have a: "map eraseCount (associateProfessors ?B) = map eraseCount (associateProfessors ?A)"
      using associateProfessors_eraseCount [of profs' procs t r home]
        associateProfessors_eraseCount [of profs procs t r home] e by simp
    have m: "map eraseCount (allMembers ?B) = map eraseCount (allMembers ?A)"
      using allMembers_eraseCount [of profs' procs t r home]
        allMembers_eraseCount [of profs procs t r home] e by simp
    have i: "map eraseCount (internalMembers ?B) = map eraseCount (internalMembers ?A)"
      using internalMembers_eraseCount [of profs' procs t r home]
        internalMembers_eraseCount [of profs procs t r home] e by simp
    have x: "map eraseCount (externalMembers ?B) = map eraseCount (externalMembers ?A)"
      using externalMembers_eraseCount [of profs' procs t r home]
        externalMembers_eraseCount [of profs procs t r home] e by simp
    have er: "errors ?B = errors ?A"
      using errors_eraseCount [of profs' procs t r home]
        errors_eraseCount [of profs procs t r home] e by simp
    have wa: "warnings ?B = warnings ?A"
      using warnings_eraseCount [of profs' procs t r home]
        warnings_eraseCount [of profs procs t r home] e by simp
    show ?thesis
      using ids [OF p] ids [OF a] ids [OF m] ids [OF i] ids [OF x] m er wa by simp
  qed
  show ?thesis
    unfolding Let_def using v comp by blast
qed

theorem count_noninterference_witness:
  "map eraseCount [sampleProfessor1\<lparr>count' := 99\<rparr>, sampleProfessor2\<lparr>count' := 0\<rparr>]
     = map eraseCount [sampleProfessor1, sampleProfessor2] \<and>
   map id' (allMembers (createJuryComposition
       [sampleProfessor1\<lparr>count' := 99\<rparr>, sampleProfessor2\<lparr>count' := 0\<rparr>]
       [exampleProcedure1] ''2024-03-01'' DEFAULT_JURY_REQUIREMENTS ''Sofia University''))
     = map id' (allMembers (createJuryComposition [sampleProfessor1, sampleProfessor2]
       [exampleProcedure1] ''2024-03-01'' DEFAULT_JURY_REQUIREMENTS ''Sofia University'')) \<and>
   errors (createJuryComposition
       [sampleProfessor1\<lparr>count' := 99\<rparr>, sampleProfessor2\<lparr>count' := 0\<rparr>]
       [exampleProcedure1] ''2024-03-01'' DEFAULT_JURY_REQUIREMENTS ''Sofia University'')
     = errors (createJuryComposition [sampleProfessor1, sampleProfessor2]
       [exampleProcedure1] ''2024-03-01'' DEFAULT_JURY_REQUIREMENTS ''Sofia University'') \<and>
   isAvailable (isProfessorAvailable (sampleProfessor1\<lparr>count' := 99\<rparr>) ''2023-07-10''
       DEFAULT_JURY_REQUIREMENTS [exampleProcedure1])
     = isAvailable (isProfessorAvailable sampleProfessor1 ''2023-07-10''
       DEFAULT_JURY_REQUIREMENTS [exampleProcedure1])"
proof -
  have e: "map eraseCount [sampleProfessor1\<lparr>count' := 99\<rparr>, sampleProfessor2\<lparr>count' := 0\<rparr>]
     = map eraseCount [sampleProfessor1, sampleProfessor2]"
    by (simp add: eraseCount_def)
  note t = count_noninterference [of sampleProfessor1 "''2023-07-10''" DEFAULT_JURY_REQUIREMENTS
      "[exampleProcedure1]" 99
      "[sampleProfessor1\<lparr>count' := 99\<rparr>, sampleProfessor2\<lparr>count' := 0\<rparr>]"
      "[sampleProfessor1, sampleProfessor2]", unfolded Let_def]
  note u = count_noninterference [of sampleProfessor1 "''2024-03-01''" DEFAULT_JURY_REQUIREMENTS
      "[exampleProcedure1]" 99
      "[sampleProfessor1\<lparr>count' := 99\<rparr>, sampleProfessor2\<lparr>count' := 0\<rparr>]"
      "[sampleProfessor1, sampleProfessor2]" "''Sofia University''", unfolded Let_def]
  show ?thesis
    using e t u by blast
qed

end
